theory Spec2Isabelle
  imports Complex_Main
begin

section \<open>Values of the Python program\<close>

text \<open>
  The program handles dynamically typed values: parsed JSON bodies, dictionaries passed
  to model constructors, the reasoning payload of a signal. They are one datatype. A
  dictionary is an association list in insertion order. Python floats are idealised as
  real numbers: a float literal stands for its decimal value and arithmetic is exact.
  Strings are lists of 8-bit characters, each read as one code point below 256.
\<close>

datatype json =
    JNull
  | JBool bool
  | JInt int
  | JFloat real
  | JStr string
  | JArr "json list"
  | JObj "(string \<times> json) list"

type_synonym fields = "(string \<times> json) list"

text \<open>\<^verbatim>\<open>d[k] = v\<close>: an existing key keeps its place, a new key goes to the end.\<close>

fun dict_set :: "('k \<times> 'v) list \<Rightarrow> 'k \<Rightarrow> 'v \<Rightarrow> ('k \<times> 'v) list" where
  "dict_set [] k v = [(k, v)]"
| "dict_set ((k', v') # d) k v =
     (if k' = k then (k, v) # d else (k', v') # dict_set d k v)"

text \<open>\<^verbatim>\<open>d.get(k, default)\<close>.\<close>

definition dict_get :: "('k \<times> 'v) list \<Rightarrow> 'k \<Rightarrow> 'v \<Rightarrow> 'v" where
  "dict_get d k dflt = (case map_of d k of None \<Rightarrow> dflt | Some v \<Rightarrow> v)"

text \<open>Truth value of an object, as \<^verbatim>\<open>if x:\<close> tests it.\<close>

fun truthy :: "json \<Rightarrow> bool" where
  "truthy JNull = False"
| "truthy (JBool b) = b"
| "truthy (JInt i) = (i \<noteq> 0)"
| "truthy (JFloat x) = (x \<noteq> 0)"
| "truthy (JStr s) = (s \<noteq> [])"
| "truthy (JArr xs) = (xs \<noteq> [])"
| "truthy (JObj kvs) = (kvs \<noteq> [])"

text \<open>
  An exception with its message (\<^verbatim>\<open>str(e)\<close>). The handlers of the adapter catch
  \<^verbatim>\<open>requests.RequestException\<close> and its subclasses, so these are one constructor;
  every other exception carries the name of its class.
\<close>

datatype error = RequestException string | OtherException string string

fun exc_msg :: "error \<Rightarrow> string" where
  "exc_msg (RequestException m) = m"
| "exc_msg (OtherException c m) = m"

definition quoted :: "string \<Rightarrow> string" where
  "quoted s = CHR 0x27 # s @ [CHR 0x27]"

fun type_name :: "json \<Rightarrow> string" where
  "type_name JNull = ''NoneType''"
| "type_name (JBool b) = ''bool''"
| "type_name (JInt i) = ''int''"
| "type_name (JFloat x) = ''float''"
| "type_name (JStr s) = ''str''"
| "type_name (JArr xs) = ''list''"
| "type_name (JObj kvs) = ''dict''"

text \<open>\<^verbatim>\<open>for x in v\<close>: a list gives its items, a dict its keys, a string its characters.\<close>

fun py_iter :: "json \<Rightarrow> error + json list" where
  "py_iter (JArr xs) = Inr xs"
| "py_iter (JObj kvs) = Inr (map (\<lambda>kv. JStr (fst kv)) kvs)"
| "py_iter (JStr s) = Inr (map (\<lambda>c. JStr [c]) s)"
| "py_iter v = Inl (OtherException ''TypeError'' (quoted (type_name v) @ '' object is not iterable''))"

text \<open>\<^verbatim>\<open>v.get(k, default)\<close>: only a dict has the method.\<close>

definition json_get :: "json \<Rightarrow> string \<Rightarrow> json \<Rightarrow> error + json" where
  "json_get v k dflt =
     (case v of
        JObj kvs \<Rightarrow> Inr (dict_get kvs k dflt)
      | _ \<Rightarrow> Inl (OtherException ''AttributeError''
               (quoted (type_name v) @ '' object has no attribute '' @ quoted ''get'')))"

text \<open>\<^verbatim>\<open>Model(**v)\<close> needs a mapping.\<close>

definition as_mapping :: "json \<Rightarrow> error + fields" where
  "as_mapping v =
     (case v of
        JObj kvs \<Rightarrow> Inr kvs
      | _ \<Rightarrow> Inl (OtherException ''TypeError''
               (''argument after ** must be a mapping, not '' @ type_name v)))"

text \<open>\<^verbatim>\<open>v[k] = x\<close> with a string key: only a dict accepts it.\<close>

definition set_item :: "json \<Rightarrow> string \<Rightarrow> json \<Rightarrow> error + fields" where
  "set_item v k x =
     (case v of
        JObj kvs \<Rightarrow> Inr (dict_set kvs k x)
      | _ \<Rightarrow> Inl (OtherException ''TypeError''
               (quoted (type_name v) @ '' object does not support item assignment'')))"

subsection \<open>Decimal output\<close>

definition digit_char :: "nat \<Rightarrow> char" where
  "digit_char d = char_of (48 + d)"

fun show_nat :: "nat \<Rightarrow> string" where
  "show_nat n = (if n < 10 then [digit_char n] else show_nat (n div 10) @ [digit_char (n mod 10)])"

declare show_nat.simps [simp del]

text \<open>Rounding to the nearest integer, ties to the even one, as float formatting does.\<close>

definition round_half_even :: "real \<Rightarrow> int" where
  "round_half_even x =
     (let f = \<lfloor>x\<rfloor>; r = x - of_int f
      in if r < 1 / 2 then f
         else if 1 / 2 < r then f + 1
         else if even f then f else f + 1)"

text \<open>\<^verbatim>\<open>f"{x:.2%}"\<close>: the value times 100 with two decimals and a percent sign.\<close>

definition format_percent2 :: "real \<Rightarrow> string" where
  "format_percent2 x =
     (let n = round_half_even (\<bar>x\<bar> * 10000); a = nat n
      in (if x < 0 then ''-'' else '''') @ show_nat (a div 100) @ ''.''
         @ [digit_char (a mod 100 div 10), digit_char (a mod 10)] @ ''%'')"

section \<open>Market configuration (sa\_market\_config.py)\<close>

definition CURRENCY :: string where "CURRENCY = ''ZAR''"
definition EXCHANGE_NAME :: string where "EXCHANGE_NAME = ''JSE''"
definition REGULATORY_BODY :: string where "REGULATORY_BODY = ''FSCA''"
definition SETTLEMENT_DAYS :: nat where "SETTLEMENT_DAYS = 3"
definition EXCHANGE_CONTROLS :: bool where "EXCHANGE_CONTROLS = True"

definition MAJOR_INDICES :: "string list" where
  "MAJOR_INDICES = [''JSE:J203'', ''JSE:J200'', ''JSE:J250'', ''JSE:J580'', ''JSE:J433'',
     ''JSE:J210'', ''JSE:J211'']"

definition SECTORS :: "string list" where
  "SECTORS = [''Financial Services'', ''Mining & Resources'', ''Industrial'', ''Consumer Goods'',
     ''Technology'', ''Healthcare'', ''Real Estate'', ''Telecommunications'', ''Energy'',
     ''Transportation'']"

definition TOP_STOCKS :: "string list" where
  "TOP_STOCKS = [''NPN'', ''BHP'', ''AGL'', ''MTN'', ''VOD'', ''SBK'', ''FSR'', ''NED'', ''ABG'',
     ''SOL'', ''IMP'', ''ANG'', ''AMS'', ''SHP'', ''WHL'', ''TBS'', ''BID'', ''TFG'', ''MRP'',
     ''CLS'']"

definition DATA_SOURCES_prices :: string where
  "DATA_SOURCES_prices = ''https://api.financialdatasets.ai/prices/''"
definition DATA_SOURCES_news :: string where
  "DATA_SOURCES_news = ''https://api.financialdatasets.ai/news/''"
definition DATA_SOURCES_company_facts :: string where
  "DATA_SOURCES_company_facts = ''https://api.financialdatasets.ai/company-facts/''"

definition FOREIGN_INVESTMENT_LIMITS :: "(string \<times> real) list" where
  "FOREIGN_INVESTMENT_LIMITS = [(''individual'', 0), (''institutional'', 0)]"

definition MAX_POSITION_SIZE :: real where "MAX_POSITION_SIZE = 5 / 100"
definition MAX_SECTOR_EXPOSURE :: real where "MAX_SECTOR_EXPOSURE = 30 / 100"
definition STOP_LOSS_PERCENTAGE :: real where "STOP_LOSS_PERCENTAGE = 15 / 100"
definition MAX_DAILY_DRAWDOWN :: real where "MAX_DAILY_DRAWDOWN = 2 / 100"

definition RISK_FACTORS :: "string list" where
  "RISK_FACTORS = [''Currency volatility (ZAR)'', ''Political risk'', ''Load shedding impact'',
     ''Commodity price exposure'', ''Emerging market volatility'', ''Regulatory changes'',
     ''Infrastructure challenges'']"

text \<open>
  \<^verbatim>\<open>str.isalpha\<close>: at least one character and every character a letter. The letters
  among the code points below 256 are A-Z, a-z, 170, 181, 186, 192-214, 216-246 and
  248-255.
\<close>

definition isalpha_char :: "char \<Rightarrow> bool" where
  "isalpha_char c =
     (let n = (of_char c :: nat)
      in (65 \<le> n \<and> n \<le> 90) \<or> (97 \<le> n \<and> n \<le> 122) \<or> n = 170 \<or> n = 181 \<or> n = 186
         \<or> (192 \<le> n \<and> n \<le> 214) \<or> (216 \<le> n \<and> n \<le> 246) \<or> (248 \<le> n \<and> n \<le> 255))"

definition isalpha :: "string \<Rightarrow> bool" where
  "isalpha s = (s \<noteq> [] \<and> list_all isalpha_char s)"

definition is_jse_ticker :: "string \<Rightarrow> bool" where
  "is_jse_ticker ticker =
     (length ticker \<ge> 3 \<and> length ticker \<le> 4 \<and> isalpha ticker \<and> ticker \<in> set TOP_STOCKS)"

section \<open>Data adapter (sa\_data\_adapter.py): pure part\<close>

definition validate_sa_ticker :: "string \<Rightarrow> bool" where
  "validate_sa_ticker ticker = (is_jse_ticker ticker \<and> ticker \<in> set TOP_STOCKS)"

definition sector_mapping :: "(string \<times> string) list" where
  "sector_mapping =
     [(''SBK'', ''Financial Services''), (''FSR'', ''Financial Services''),
      (''NED'', ''Financial Services''), (''ABG'', ''Financial Services''),
      (''BHP'', ''Mining & Resources''), (''AGL'', ''Mining & Resources''),
      (''SOL'', ''Mining & Resources''), (''IMP'', ''Mining & Resources''),
      (''ANG'', ''Mining & Resources''), (''AMS'', ''Mining & Resources''),
      (''SHP'', ''Consumer Goods''), (''WHL'', ''Consumer Goods''),
      (''TBS'', ''Consumer Goods''), (''BID'', ''Consumer Goods''),
      (''TFG'', ''Consumer Goods''), (''MRP'', ''Consumer Goods''),
      (''CLS'', ''Consumer Goods''),
      (''MTN'', ''Telecommunications''), (''VOD'', ''Telecommunications''),
      (''NPN'', ''Technology'')]"

definition get_sa_sector_exposure :: "string \<Rightarrow> string option" where
  "get_sa_sector_exposure ticker = map_of sector_mapping ticker"

section \<open>Collaborators outside the repository's visible code\<close>

text \<open>
  Modelled from the spec: the analyst signal (\<^verbatim>\<open>AnalystSignal\<close> of the absent
  \<^verbatim>\<open>src/data/models.py\<close>) is a value object with a categorical signal, a confidence
  scalar, a free-form reasoning payload and a maximum recommended position size.
\<close>

record analyst_signal =
  signal :: string
  confidence :: real
  reasoning :: json
  max_position_size :: real

text \<open>The reply of one HTTP GET: either the call raises, or a response comes back.\<close>

record response =
  status_code :: nat
  reason :: string
  json_body :: "string + json"

datatype http_outcome = Raised string | Returned response

text \<open>
  What the code takes from its surroundings. The typed records \<^verbatim>\<open>Price\<close>,
  \<^verbatim>\<open>FinancialMetrics\<close>, \<^verbatim>\<open>CompanyNews\<close> and \<^verbatim>\<open>CompanyFacts\<close> are
  declared in the absent \<^verbatim>\<open>src/data/models.py\<close>: their constructors (which may
  reject a dictionary) and \<^verbatim>\<open>model_dump\<close> are parameters, as are the network, the
  process environment, the clock, \<^verbatim>\<open>get_model\<close> of the absent \<^verbatim>\<open>src/llm/models.py\<close>
  and \<^verbatim>\<open>json.loads\<close>. \<^verbatim>\<open>get_model\<close> takes the model name and provider and may
  raise; the model it returns is asked with a prompt that is a fixed template filled from
  the ticker context, so its \<^verbatim>\<open>invoke\<close> is a function of that context.
\<close>

record 'r env =
  api_key :: "string option"
  today :: string
  http_get :: "string \<Rightarrow> http_outcome"
  mk_Price :: "fields \<Rightarrow> error + 'r"
  mk_FinancialMetrics :: "fields \<Rightarrow> error + 'r"
  mk_CompanyNews :: "fields \<Rightarrow> error + 'r"
  mk_CompanyFacts :: "fields \<Rightarrow> error + 'r"
  model_dump :: "'r \<Rightarrow> fields"
  get_model :: "string \<Rightarrow> string \<Rightarrow> error + (json \<Rightarrow> error + string)"
  json_loads :: "string \<Rightarrow> error + json"
  mk_AnalystSignal :: "json \<Rightarrow> json \<Rightarrow> json \<Rightarrow> json \<Rightarrow> error + analyst_signal"

text \<open>
  An HTTP call with the URL and the headers it was given: through \<^verbatim>\<open>requests.get\<close>
  or through the adapter's session (which adds its own User-Agent header).
\<close>

datatype call =
    RequestsGet string "(string \<times> string) list"
  | SessionGet string "(string \<times> string) list"

text \<open>
  Modelled from the spec: the cache (\<^verbatim>\<open>src/data/cache.py\<close>, absent) stores entries
  under a composite string key, one store per data kind; an entry is read back as it was
  written and is never invalidated or expired.

  The state the adapter works on: the stores of the cache, the HTTP calls issued and the
  lines printed, both oldest first, and a trace of the calls of the four per-ticker fetch
  operations (operation name, ticker argument), kept to say which of them were invoked.
\<close>

record world =
  prices_cache :: "(string \<times> json) list"
  financial_metrics_cache :: "(string \<times> json) list"
  news_cache :: "(string \<times> json) list"
  company_facts_cache :: "(string \<times> json) list"
  economic_indicators_cache :: "(string \<times> (string \<times> real) list) list"
  fx_rates_cache :: "(string \<times> (string \<times> real) list) list"
  requests :: "call list"
  printed :: "string list"
  invoked :: "(string \<times> string) list"

definition cache_get :: "(string \<times> 'v) list \<Rightarrow> string \<Rightarrow> 'v option" where
  "cache_get store key = map_of store key"

definition cache_set :: "(string \<times> 'v) list \<Rightarrow> string \<Rightarrow> 'v \<Rightarrow> (string \<times> 'v) list" where
  "cache_set store key v = dict_set store key v"

text \<open>\<^verbatim>\<open>if cached_data := _cache.get_...(cache_key):\<close> is a hit on a truthy entry only.\<close>

definition cached_data :: "(string \<times> json) list \<Rightarrow> string \<Rightarrow> json option" where
  "cached_data store key =
     (case cache_get store key of
        None \<Rightarrow> None
      | Some v \<Rightarrow> if truthy v then Some v else None)"

section \<open>Data adapter (sa\_data\_adapter.py)\<close>

definition enter :: "string \<Rightarrow> string \<Rightarrow> world \<Rightarrow> world" where
  "enter operation ticker w = w\<lparr>invoked := invoked w @ [(operation, ticker)]\<rparr>"

definition auth_headers :: "'r env \<Rightarrow> (string \<times> string) list" where
  "auth_headers env =
     (case api_key env of
        None \<Rightarrow> []
      | Some k \<Rightarrow> if k \<noteq> [] then [(''X-API-KEY'', k)] else [])"

text \<open>\<^verbatim>\<open>response.raise_for_status()\<close> raises for the statuses 400 to 599.\<close>

definition raise_for_status :: "string \<Rightarrow> response \<Rightarrow> error option" where
  "raise_for_status url resp =
     (if 400 \<le> status_code resp \<and> status_code resp < 500 then
        Some (RequestException (show_nat (status_code resp) @ '' Client Error: '' @ reason resp
                @ '' for url: '' @ url))
      else if 500 \<le> status_code resp \<and> status_code resp < 600 then
        Some (RequestException (show_nat (status_code resp) @ '' Server Error: '' @ reason resp
                @ '' for url: '' @ url))
      else None)"

text \<open>
  \<^verbatim>\<open>session.get\<close>, \<^verbatim>\<open>raise_for_status\<close> and \<^verbatim>\<open>response.json()\<close> in a row; each
  failure is a \<^verbatim>\<open>RequestException\<close>.
\<close>

definition session_get_json :: "'r env \<Rightarrow> string \<Rightarrow> error + json" where
  "session_get_json env url =
     (case http_get env url of
        Raised msg \<Rightarrow> Inl (RequestException msg)
      | Returned resp \<Rightarrow>
          (case raise_for_status url resp of
             Some e \<Rightarrow> Inl e
           | None \<Rightarrow>
               (case json_body resp of
                  Inl msg \<Rightarrow> Inl (RequestException msg)
                | Inr data \<Rightarrow> Inr data)))"

text \<open>The loop that prepares each item and appends the record built from it.\<close>

fun build_with :: "(json \<Rightarrow> error + fields) \<Rightarrow> (fields \<Rightarrow> error + 'r) \<Rightarrow> json list
    \<Rightarrow> error + 'r list" where
  "build_with prepare mk [] = Inr []"
| "build_with prepare mk (x # xs) =
     (case prepare x of
        Inl e \<Rightarrow> Inl e
      | Inr f \<Rightarrow>
          (case mk f of
             Inl e \<Rightarrow> Inl e
           | Inr r \<Rightarrow>
               (case build_with prepare mk xs of
                  Inl e \<Rightarrow> Inl e
                | Inr rs \<Rightarrow> Inr (r # rs))))"

text \<open>\<^verbatim>\<open>[Model(**item) for item in cached_data]\<close>.\<close>

definition from_cache :: "(fields \<Rightarrow> error + 'r) \<Rightarrow> json \<Rightarrow> error + 'r list" where
  "from_cache mk cached =
     (case py_iter cached of
        Inl e \<Rightarrow> Inl e
      | Inr xs \<Rightarrow> build_with as_mapping mk xs)"

definition dump_all :: "'r env \<Rightarrow> 'r list \<Rightarrow> json" where
  "dump_all env rs = JArr (map (\<lambda>r. JObj (model_dump env r)) rs)"

text \<open>
  The body of the \<^verbatim>\<open>try\<close> blocks that fetch a list: the GET, the array under
  \<^verbatim>\<open>key\<close> (empty by default), and the records built from its items.
\<close>

definition fetch_records :: "'r env \<Rightarrow> string \<Rightarrow> string \<Rightarrow> (json \<Rightarrow> error + fields)
    \<Rightarrow> (fields \<Rightarrow> error + 'r) \<Rightarrow> error + 'r list" where
  "fetch_records env url key prepare mk =
     (case session_get_json env url of
        Inl e \<Rightarrow> Inl e
      | Inr data \<Rightarrow>
          (case json_get data key (JArr []) of
             Inl e \<Rightarrow> Inl e
           | Inr items \<Rightarrow>
               (case py_iter items of
                  Inl e \<Rightarrow> Inl e
                | Inr xs \<Rightarrow> build_with prepare mk xs)))"

definition annotate_currency :: "json \<Rightarrow> error + fields" where
  "annotate_currency item = set_item item ''currency'' (JStr ''ZAR'')"

subsection \<open>Prices\<close>

text \<open>
  What \<^verbatim>\<open>get_jse_prices\<close> hands back: the typed list on a cache hit, and whatever
  \<^verbatim>\<open>response.json()\<close> gave, or the dictionary \<^verbatim>\<open>{"prices": []}\<close>, otherwise.
\<close>

datatype 'r fetched = Typed "'r list" | Raw json

text \<open>
  A statement either returns from the function or lets control fall through to the next
  statement; what follows a \<^verbatim>\<open>return\<close> does not run.
\<close>

datatype 'a flow = Return 'a | Fallthrough

definition then_stmt :: "'a flow \<times> world \<Rightarrow> (world \<Rightarrow> 'a flow \<times> world) \<Rightarrow> 'a flow \<times> world" where
  "then_stmt fw k = (case fw of (Return a, w) \<Rightarrow> (Return a, w) | (Fallthrough, w) \<Rightarrow> k w)"

definition then_last :: "'a flow \<times> world \<Rightarrow> (world \<Rightarrow> 'a \<times> world) \<Rightarrow> 'a \<times> world" where
  "then_last fw k = (case fw of (Return a, w) \<Rightarrow> (a, w) | (Fallthrough, w) \<Rightarrow> k w)"

definition prices_url :: "string \<Rightarrow> string \<Rightarrow> string \<Rightarrow> string" where
  "prices_url ticker_format start_date end_date =
     DATA_SOURCES_prices @ ''?ticker='' @ ticker_format
       @ ''&interval=day&interval_multiplier=1&start_date='' @ start_date
       @ ''&end_date='' @ end_date"

definition ticker_formats :: "string \<Rightarrow> string list" where
  "ticker_formats ticker = [ticker, ''JSE:'' @ ticker, ticker @ ''.JSE'', ticker @ ''.JO'']"

text \<open>
  The loop over the ticker formats. Inside its \<^verbatim>\<open>try\<close> are the GET, the status test
  and \<^verbatim>\<open>response.json()\<close>; any exception there moves on to the next format.
\<close>

fun try_formats :: "'r env \<Rightarrow> (string \<times> string) list \<Rightarrow> string \<Rightarrow> string \<Rightarrow> string list
    \<Rightarrow> world \<Rightarrow> (error + 'r fetched) flow \<times> world" where
  "try_formats env headers start_date end_date [] w = (Fallthrough, w)"
| "try_formats env headers start_date end_date (ticker_format # rest) w =
     (let url = prices_url ticker_format start_date end_date;
          w1 = w\<lparr>requests := requests w @ [RequestsGet url headers]\<rparr>
      in case http_get env url of
           Raised msg \<Rightarrow> try_formats env headers start_date end_date rest w1
         | Returned resp \<Rightarrow>
             if status_code resp = 200 then
               (case json_body resp of
                  Inr data \<Rightarrow> (Return (Inr (Raw data)), w1)
                | Inl msg \<Rightarrow> try_formats env headers start_date end_date rest w1)
             else try_formats env headers start_date end_date rest w1)"

text \<open>
  The statements written after the unconditional \<^verbatim>\<open>return {"prices": []}\<close>; the
  variable \<^verbatim>\<open>url\<close> still holds the URL of the last format of the loop.
\<close>

definition prices_after_return :: "'r env \<Rightarrow> (string \<times> string) list \<Rightarrow> string \<Rightarrow> string
    \<Rightarrow> string \<Rightarrow> world \<Rightarrow> (error + 'r fetched) \<times> world" where
  "prices_after_return env headers ticker url cache_key w =
     (let w1 = w\<lparr>requests := requests w @ [SessionGet url headers]\<rparr>
      in case fetch_records env url ''prices'' annotate_currency (mk_Price env) of
           Inr prices \<Rightarrow>
             (Inr (Typed prices),
              w1\<lparr>prices_cache := cache_set (prices_cache w1) cache_key (dump_all env prices)\<rparr>)
         | Inl e \<Rightarrow>
             (case e of
                RequestException msg \<Rightarrow>
                  (Inr (Typed []),
                   w1\<lparr>printed := printed w1 @ [''Error fetching JSE data for '' @ ticker @ '': '' @ msg]\<rparr>)
              | OtherException c msg \<Rightarrow> (Inl e, w1)))"

definition get_jse_prices :: "'r env \<Rightarrow> world \<Rightarrow> string \<Rightarrow> string \<Rightarrow> string
    \<Rightarrow> (error + 'r fetched) \<times> world" where
  "get_jse_prices env w0 ticker start_date end_date =
     (let w = enter ''get_jse_prices'' ticker w0
      in if \<not> is_jse_ticker ticker then
           (Inl (OtherException ''ValueError'' (''Invalid JSE ticker format: '' @ ticker)), w)
         else
           let cache_key = ''JSE_'' @ ticker @ ''_'' @ start_date @ ''_'' @ end_date
           in case cached_data (prices_cache w) cache_key of
                Some cached \<Rightarrow>
                  (case from_cache (mk_Price env) cached of
                     Inl e \<Rightarrow> (Inl e, w)
                   | Inr prices \<Rightarrow> (Inr (Typed prices), w))
              | None \<Rightarrow>
                  let headers = auth_headers env
                  in then_last
                       (then_stmt
                          (try_formats env headers start_date end_date (ticker_formats ticker) w)
                          (\<lambda>w'. (Return (Inr (Raw (JObj [(''prices'', JArr [])]))), w')))
                       (prices_after_return env headers ticker
                          (prices_url (last (ticker_formats ticker)) start_date end_date)
                          cache_key))"

subsection \<open>Financial metrics, news, company facts\<close>


text \<open>
  \<^verbatim>\<open>_analyze_sa_sentiment\<close>: the title in lower case is searched for each keyword.
\<close>

definition lower_char :: "char \<Rightarrow> char" where
  "lower_char c =
     (let n = (of_char c :: nat)
      in if (65 \<le> n \<and> n \<le> 90) \<or> (192 \<le> n \<and> n \<le> 214) \<or> (216 \<le> n \<and> n \<le> 222)
         then char_of (n + 32) else c)"

definition lower :: "string \<Rightarrow> string" where
  "lower s = map lower_char s"

fun starts_with :: "string \<Rightarrow> string \<Rightarrow> bool" where
  "starts_with s [] = True"
| "starts_with [] (p # ps) = False"
| "starts_with (c # cs) (p # ps) = (c = p \<and> starts_with cs ps)"

text \<open>\<^verbatim>\<open>word in text\<close> on strings.\<close>

fun contains :: "string \<Rightarrow> string \<Rightarrow> bool" where
  "contains [] word = (word = [])"
| "contains (c # cs) word = (starts_with (c # cs) word \<or> contains cs word)"

definition positive_words :: "string list" where
  "positive_words = [''growth'', ''profit'', ''dividend'', ''expansion'', ''recovery'', ''rand'',
     ''zar'', ''jse'', ''johannesburg'', ''south africa'']"

definition negative_words :: "string list" where
  "negative_words = [''load shedding'', ''eskom'', ''corruption'', ''strike'', ''protest'',
     ''inflation'', ''recession'', ''debt'', ''default'']"

definition analyze_sa_sentiment :: "string \<Rightarrow> string" where
  "analyze_sa_sentiment text =
     (let text_lower = lower text;
          positive_count = length (filter (contains text_lower) positive_words);
          negative_count = length (filter (contains text_lower) negative_words)
      in if positive_count > negative_count then ''positive''
         else if negative_count > positive_count then ''negative''
         else ''neutral'')"

text \<open>
  \<^verbatim>\<open>news_data["sentiment"] = self._analyze_sa_sentiment(news_data.get("title", ""))\<close>:
  the item must be a dict and its title a string.
\<close>

definition annotate_sentiment :: "json \<Rightarrow> error + fields" where
  "annotate_sentiment item =
     (case json_get item ''title'' (JStr []) of
        Inl e \<Rightarrow> Inl e
      | Inr title \<Rightarrow>
          (case title of
             JStr text \<Rightarrow> set_item item ''sentiment'' (JStr (analyze_sa_sentiment text))
           | _ \<Rightarrow> Inl (OtherException ''AttributeError''
                    (quoted (type_name title) @ '' object has no attribute '' @ quoted ''lower''))))"

definition get_sa_news :: "'r env \<Rightarrow> world \<Rightarrow> string \<Rightarrow> string \<Rightarrow> string option
    \<Rightarrow> (error + 'r list) \<times> world" where
  "get_sa_news env w0 ticker end_date start_date =
     (let w = enter ''get_sa_news'' ticker w0;
          start_given = (case start_date of None \<Rightarrow> False | Some s \<Rightarrow> s \<noteq> []);
          cache_key = ''JSE_NEWS_'' @ ticker @ ''_'' @ end_date @ ''_''
                        @ (if start_given then the start_date else ''all'')
      in case cached_data (news_cache w) cache_key of
           Some cached \<Rightarrow> (from_cache (mk_CompanyNews env) cached, w)
         | None \<Rightarrow>
            (let headers = auth_headers env;
                 jse_ticker = ''JSE:'' @ ticker;
                 url0 = DATA_SOURCES_news @ ''?ticker='' @ jse_ticker @ ''&end_date='' @ end_date;
                 url = (if start_given then url0 @ ''&start_date='' @ the start_date else url0);
                 w1 = w\<lparr>requests := requests w @ [SessionGet url headers]\<rparr>
             in case fetch_records env url ''news'' annotate_sentiment (mk_CompanyNews env) of
                  Inr news_items \<Rightarrow>
                    (Inr news_items,
                     w1\<lparr>news_cache := cache_set (news_cache w1) cache_key (dump_all env news_items)\<rparr>)
                | Inl e \<Rightarrow>
                    (case e of
                       RequestException msg \<Rightarrow>
                         (Inr [],
                          w1\<lparr>printed := printed w1
                               @ [''Error fetching SA news for '' @ ticker @ '': '' @ msg]\<rparr>)
                     | OtherException c msg \<Rightarrow> (Inl e, w1))))"

text \<open>The body of the \<^verbatim>\<open>try\<close> block of \<^verbatim>\<open>get_sa_company_facts\<close>.\<close>

definition fetch_company_facts :: "'r env \<Rightarrow> string \<Rightarrow> error + 'r" where
  "fetch_company_facts env url =
     (case session_get_json env url of
        Inl e \<Rightarrow> Inl e
      | Inr data \<Rightarrow>
          (case json_get data ''company_facts'' (JObj []) of
             Inl e \<Rightarrow> Inl e
           | Inr company_facts \<Rightarrow>
               (case set_item company_facts ''exchange'' (JStr ''JSE'') of
                  Inl e \<Rightarrow> Inl e
                | Inr f \<Rightarrow> mk_CompanyFacts env (dict_set f ''currency'' (JStr ''ZAR'')))))"

definition get_sa_company_facts :: "'r env \<Rightarrow> world \<Rightarrow> string \<Rightarrow> (error + 'r option) \<times> world" where
  "get_sa_company_facts env w0 ticker =
     (let w = enter ''get_sa_company_facts'' ticker w0;
          cache_key = ''JSE_FACTS_'' @ ticker
      in case cached_data (company_facts_cache w) cache_key of
           Some cached \<Rightarrow>
             (case as_mapping cached of
                Inl e \<Rightarrow> (Inl e, w)
              | Inr f \<Rightarrow>
                  (case mk_CompanyFacts env f of
                     Inl e \<Rightarrow> (Inl e, w)
                   | Inr facts \<Rightarrow> (Inr (Some facts), w)))
         | None \<Rightarrow>
            (let headers = auth_headers env;
                 jse_ticker = ''JSE:'' @ ticker;
                 url = DATA_SOURCES_company_facts @ ''?ticker='' @ jse_ticker;
                 w1 = w\<lparr>requests := requests w @ [SessionGet url headers]\<rparr>
             in case fetch_company_facts env url of
                  Inr facts \<Rightarrow>
                    (Inr (Some facts),
                     w1\<lparr>company_facts_cache :=
                          cache_set (company_facts_cache w1) cache_key (JObj (model_dump env facts))\<rparr>)
                | Inl e \<Rightarrow>
                    (case e of
                       RequestException msg \<Rightarrow>
                         (Inr None,
                          w1\<lparr>printed := printed w1
                               @ [''Error fetching SA company facts for '' @ ticker @ '': '' @ msg]\<rparr>)
                     | OtherException c msg \<Rightarrow> (Inl e, w1))))"

subsection \<open>Market overview, economic indicators, exchange rates\<close>

text \<open>
  The loop of \<^verbatim>\<open>get_sa_market_data\<close> over the indices, with the dictionary built so
  far. An index found in the cache is taken from there; otherwise its prices of today
  are fetched.
\<close>

fun market_data_loop :: "'r env \<Rightarrow> string list \<Rightarrow> fields \<Rightarrow> world \<Rightarrow> (error + fields) \<times> world" where
  "market_data_loop env [] market_data w = (Inr market_data, w)"
| "market_data_loop env (index # rest) market_data w =
     (let cache_key = ''JSE_INDEX_'' @ index
      in case cached_data (prices_cache w) cache_key of
           Some cached \<Rightarrow> market_data_loop env rest (dict_set market_data index cached) w
         | None \<Rightarrow>
            (let headers = auth_headers env;
                 url = prices_url index (today env) (today env);
                 w1 = w\<lparr>requests := requests w @ [SessionGet url headers]\<rparr>
             in case (case session_get_json env url of
                        Inl e \<Rightarrow> Inl e
                      | Inr data \<Rightarrow> json_get data ''prices'' (JArr [])) of
                  Inr prices \<Rightarrow>
                    market_data_loop env rest (dict_set market_data index prices)
                      (w1\<lparr>prices_cache := cache_set (prices_cache w1) cache_key prices\<rparr>)
                | Inl e \<Rightarrow>
                    (case e of
                       RequestException msg \<Rightarrow>
                         market_data_loop env rest (dict_set market_data index (JArr []))
                           (w1\<lparr>printed := printed w1
                                @ [''Error fetching SA market data for '' @ index @ '': '' @ msg]\<rparr>)
                     | OtherException c msg \<Rightarrow> (Inl e, w1))))"

definition get_sa_market_data :: "'r env \<Rightarrow> world \<Rightarrow> string list option \<Rightarrow> (error + fields) \<times> world" where
  "get_sa_market_data env w indices =
     market_data_loop env (case indices of None \<Rightarrow> take 3 MAJOR_INDICES | Some xs \<Rightarrow> xs) [] w"

definition indicators_placeholder :: "(string \<times> real) list" where
  "indicators_placeholder =
     [(''SA_CPI'', 52 / 10), (''SA_REPO_RATE'', 825 / 100), (''SA_GDP_GROWTH'', 18 / 10),
      (''SA_UNEMPLOYMENT'', 321 / 10), (''SA_CURRENT_ACCOUNT'', - (21 / 10)),
      (''SA_BUDGET_DEFICIT'', - (49 / 10))]"

definition get_sa_economic_indicators :: "world \<Rightarrow> (string \<times> real) list \<times> world" where
  "get_sa_economic_indicators w =
     (let cache_key = ''SA_ECONOMIC_INDICATORS''
      in case cache_get (economic_indicators_cache w) cache_key of
           Some cached \<Rightarrow>
             if cached \<noteq> [] then (cached, w)
             else (indicators_placeholder,
                   w\<lparr>economic_indicators_cache :=
                        cache_set (economic_indicators_cache w) cache_key indicators_placeholder\<rparr>)
         | None \<Rightarrow>
             (indicators_placeholder,
              w\<lparr>economic_indicators_cache :=
                   cache_set (economic_indicators_cache w) cache_key indicators_placeholder\<rparr>))"

definition fx_rates_placeholder :: "(string \<times> real) list" where
  "fx_rates_placeholder =
     [(''USDZAR'', 1845 / 100), (''EURZAR'', 2012 / 100), (''GBPZAR'', 2367 / 100),
      (''JPYZAR'', 123 / 1000), (''CNYZAR'', 256 / 100)]"

definition get_zar_fx_rates :: "world \<Rightarrow> (string \<times> real) list \<times> world" where
  "get_zar_fx_rates w =
     (let cache_key = ''ZAR_FX_RATES''
      in case cache_get (fx_rates_cache w) cache_key of
           Some cached \<Rightarrow>
             if cached \<noteq> [] then (cached, w)
             else (fx_rates_placeholder,
                   w\<lparr>fx_rates_cache := cache_set (fx_rates_cache w) cache_key fx_rates_placeholder\<rparr>)
         | None \<Rightarrow>
             (fx_rates_placeholder,
              w\<lparr>fx_rates_cache := cache_set (fx_rates_cache w) cache_key fx_rates_placeholder\<rparr>))"

section \<open>Agents (sa\_market\_analyst.py)\<close>

text \<open>
  The parts of the shared state the agents read and write. The portfolio object (declared
  outside the visible code) is read through \<^verbatim>\<open>total_cash\<close>, \<^verbatim>\<open>positions\<close> (a
  dict from ticker to position) and the integer \<^verbatim>\<open>shares\<close> of a position. The keys
  \<^verbatim>\<open>metadata\<close> of the state and \<^verbatim>\<open>analyst_signals\<close> of its data may be absent.
\<close>

record position =
  shares :: int

record portfolio =
  total_cash :: real
  positions :: "(string \<times> position) list"

record agent_state =
  metadata :: "(string \<times> string) list option"
  data_tickers :: "string list"
  data_end_date :: string
  data_portfolio :: portfolio
  data_analyst_signals :: "(string \<times> (string \<times> analyst_signal) list) list option"

text \<open>
  \<^verbatim>\<open>if "analyst_signals" not in state["data"]: state["data"]["analyst_signals"] = {}\<close>,
  then the entry of the agent is set.
\<close>

definition record_signals :: "agent_state \<Rightarrow> string \<Rightarrow> (string \<times> analyst_signal) list \<Rightarrow> agent_state" where
  "record_signals st agent sigs =
     st\<lparr>data_analyst_signals :=
          Some (dict_set (case data_analyst_signals st of None \<Rightarrow> [] | Some m \<Rightarrow> m) agent sigs)\<rparr>"

text \<open>
  The first statement of every agent:
  \<^verbatim>\<open>llm = get_model(state["metadata"]["model_name"], state["metadata"]["model_provider"])\<close>.
  A missing key raises \<^verbatim>\<open>KeyError\<close>; \<^verbatim>\<open>get_model\<close> may raise as well.
\<close>

definition state_get_model :: "'r env \<Rightarrow> agent_state \<Rightarrow> error + (json \<Rightarrow> error + string)" where
  "state_get_model env st =
     (case metadata st of
        None \<Rightarrow> Inl (OtherException ''KeyError'' (quoted ''metadata''))
      | Some md \<Rightarrow>
          (case map_of md ''model_name'' of
             None \<Rightarrow> Inl (OtherException ''KeyError'' (quoted ''model_name''))
           | Some model_name \<Rightarrow>
               (case map_of md ''model_provider'' of
                  None \<Rightarrow> Inl (OtherException ''KeyError'' (quoted ''model_provider''))
                | Some model_provider \<Rightarrow> get_model env model_name model_provider)))"

definition floats_json :: "(string \<times> real) list \<Rightarrow> json" where
  "floats_json d = JObj (map (\<lambda>kv. (fst kv, JFloat (snd kv))) d)"

definition strings_json :: "string list \<Rightarrow> json" where
  "strings_json xs = JArr (map JStr xs)"

subsection \<open>Market analyst\<close>

definition TRADING_START_TIME :: string where "TRADING_START_TIME = ''09:00:00''"
definition TRADING_END_TIME :: string where "TRADING_END_TIME = ''17:00:00''"

definition sa_context :: "(string \<times> real) list \<Rightarrow> (string \<times> real) list \<Rightarrow> json" where
  "sa_context economic_indicators fx_rates =
     JObj [(''currency'', JStr ''ZAR''),
           (''exchange'', JStr ''JSE''),
           (''economic_indicators'', floats_json economic_indicators),
           (''fx_rates'', floats_json fx_rates),
           (''risk_factors'', strings_json RISK_FACTORS),
           (''regulatory_body'', JStr REGULATORY_BODY),
           (''trading_hours'', JStr (TRADING_START_TIME @ '' - '' @ TRADING_END_TIME @ '' SAST'')),
           (''settlement'', JStr (''T+'' @ show_nat SETTLEMENT_DAYS)),
           (''major_sectors'', strings_json SECTORS),
           (''top_stocks'', strings_json (take 10 TOP_STOCKS))]"

text \<open>
  The context of one ticker. A typed record is truthy, and what \<^verbatim>\<open>model_dump\<close> gives
  is a dictionary of JSON values, so \<^verbatim>\<open>json.dumps\<close> of the context, which the source
  calls while it builds the prompt, outside the \<^verbatim>\<open>try\<close>, does not raise.
\<close>

definition ticker_context :: "'r env \<Rightarrow> string \<Rightarrow> string option \<Rightarrow> 'r option \<Rightarrow> 'r list \<Rightarrow> json
    \<Rightarrow> json" where
  "ticker_context env ticker sector company_facts news market_context =
     JObj [(''ticker'', JStr ticker),
           (''sector'', (case sector of None \<Rightarrow> JNull | Some s \<Rightarrow> JStr s)),
           (''company_info'', (case company_facts of None \<Rightarrow> JObj [] | Some f \<Rightarrow> JObj (model_dump env f))),
           (''recent_news'', dump_all env (take 5 news)),
           (''market_context'', market_context)]"

text \<open>
  The body of the \<^verbatim>\<open>try\<close> block: the model is invoked, its reply parsed, the four
  fields read with \<^verbatim>\<open>analysis.get\<close> and the signal constructed.
\<close>

definition llm_analysis :: "'r env \<Rightarrow> (json \<Rightarrow> error + string) \<Rightarrow> json \<Rightarrow> error + analyst_signal" where
  "llm_analysis env llm context =
     (case llm context of
        Inl e \<Rightarrow> Inl e
      | Inr content \<Rightarrow>
          (case json_loads env content of
             Inl e \<Rightarrow> Inl e
           | Inr analysis \<Rightarrow>
               (case json_get analysis ''signal'' JNull of
                  Inl e \<Rightarrow> Inl e
                | Inr sg \<Rightarrow>
                    (case json_get analysis ''confidence'' JNull of
                       Inl e \<Rightarrow> Inl e
                     | Inr cf \<Rightarrow>
                         (case json_get analysis ''reasoning'' JNull of
                            Inl e \<Rightarrow> Inl e
                          | Inr rs \<Rightarrow>
                              (case json_get analysis ''max_position_size'' JNull of
                                 Inl e \<Rightarrow> Inl e
                               | Inr mp \<Rightarrow> mk_AnalystSignal env sg cf rs mp))))))"

text \<open>The signal of the \<^verbatim>\<open>except Exception\<close> branch.\<close>

definition default_signal :: "error \<Rightarrow> analyst_signal" where
  "default_signal e =
     \<lparr>signal = ''HOLD'', confidence = 5 / 10,
      reasoning = JObj [(''error'', JStr (''Analysis failed: '' @ exc_msg e))],
      max_position_size = 2 / 100\<rparr>"

text \<open>
  The body of the loop for one valid ticker: the data is fetched, the context built and the
  model asked inside \<^verbatim>\<open>try\<close>; \<^verbatim>\<open>except Exception\<close> prints the error and takes
  the default signal. An exception of the two fetches is outside the \<^verbatim>\<open>try\<close>.
\<close>

definition analyse_ticker :: "'r env \<Rightarrow> (json \<Rightarrow> error + string) \<Rightarrow> json \<Rightarrow> string \<Rightarrow> string
    \<Rightarrow> world \<Rightarrow> (error + analyst_signal) \<times> world" where
  "analyse_ticker env llm market_context end_date ticker w =
     (let sector = get_sa_sector_exposure ticker
      in case get_sa_company_facts env w ticker of
           (Inl e, w1) \<Rightarrow> (Inl e, w1)
         | (Inr company_facts, w1) \<Rightarrow>
             (case get_sa_news env w1 ticker end_date None of
                (Inl e, w2) \<Rightarrow> (Inl e, w2)
              | (Inr news, w2) \<Rightarrow>
                  (case llm_analysis env llm
                          (ticker_context env ticker sector company_facts news market_context) of
                     Inr sg \<Rightarrow> (Inr sg, w2)
                   | Inl e \<Rightarrow>
                       (Inr (default_signal e),
                        w2\<lparr>printed := printed w2
                             @ [''Error analyzing '' @ ticker @ '' for SA market: '' @ exc_msg e]\<rparr>))))"

text \<open>
  The loop over the tickers, with the dictionary of signals built so far; a ticker that
  does not validate is skipped.
\<close>

fun analyst_loop :: "'r env \<Rightarrow> (json \<Rightarrow> error + string) \<Rightarrow> json \<Rightarrow> string \<Rightarrow> string list
    \<Rightarrow> (string \<times> analyst_signal) list
    \<Rightarrow> world \<Rightarrow> (error + (string \<times> analyst_signal) list) \<times> world" where
  "analyst_loop env llm market_context end_date [] ticker_analyses w = (Inr ticker_analyses, w)"
| "analyst_loop env llm market_context end_date (ticker # rest) ticker_analyses w =
     (if \<not> validate_sa_ticker ticker then
        analyst_loop env llm market_context end_date rest ticker_analyses w
      else
        case analyse_ticker env llm market_context end_date ticker w of
          (Inl e, w') \<Rightarrow> (Inl e, w')
        | (Inr sg, w') \<Rightarrow>
            analyst_loop env llm market_context end_date rest (dict_set ticker_analyses ticker sg) w')"

definition sa_market_analyst_agent :: "'r env \<Rightarrow> world \<Rightarrow> agent_state
    \<Rightarrow> (error + agent_state) \<times> world" where
  "sa_market_analyst_agent env w st =
     (case state_get_model env st of
        Inl e \<Rightarrow> (Inl e, w)
      | Inr llm \<Rightarrow>
          (let (economic_indicators, w1) = get_sa_economic_indicators w;
               (fx_rates, w2) = get_zar_fx_rates w1
           in case get_sa_market_data env w2 None of
                (Inl e, w3) \<Rightarrow> (Inl e, w3)
              | (Inr market_data, w3) \<Rightarrow>
                  (case analyst_loop env llm (sa_context economic_indicators fx_rates)
                          (data_end_date st) (data_tickers st) [] w3 of
                     (Inl e, w4) \<Rightarrow> (Inl e, w4)
                   | (Inr ticker_analyses, w4) \<Rightarrow>
                       (Inr (record_signals st ''sa_market_analyst'' ticker_analyses), w4))))"

subsection \<open>Regulatory compliance\<close>

definition regulatory_context :: fields where
  "regulatory_context =
     [(''regulatory_body'', JStr REGULATORY_BODY),
      (''exchange_controls'', JBool EXCHANGE_CONTROLS),
      (''foreign_limits'', floats_json FOREIGN_INVESTMENT_LIMITS),
      (''max_position_size'', JFloat MAX_POSITION_SIZE),
      (''max_sector_exposure'', JFloat MAX_SECTOR_EXPOSURE),
      (''stop_loss_percentage'', JFloat STOP_LOSS_PERCENTAGE),
      (''max_daily_drawdown'', JFloat MAX_DAILY_DRAWDOWN)]"

text \<open>\<^verbatim>\<open>position.shares * 100 / total_portfolio_value\<close>, or 0 when there is no cash.\<close>

definition position_size :: "real \<Rightarrow> position \<Rightarrow> real" where
  "position_size total_portfolio_value p =
     (let position_value = shares p * 100
      in if total_portfolio_value > 0 then real_of_int position_value / total_portfolio_value
         else 0)"

definition position_issue :: "string \<Rightarrow> real \<Rightarrow> json" where
  "position_issue ticker current =
     JObj [(''ticker'', JStr ticker),
           (''issue'', JStr ''Position size exceeds 5% limit''),
           (''current_size'', JStr (format_percent2 current)),
           (''max_allowed'', JStr (format_percent2 MAX_POSITION_SIZE))]"

text \<open>The first loop over the positions: the issues it appends, in order.\<close>

fun position_issues :: "real \<Rightarrow> (string \<times> position) list \<Rightarrow> json list" where
  "position_issues total_portfolio_value [] = []"
| "position_issues total_portfolio_value ((ticker, p) # rest) =
     (if shares p > 0 \<and> position_size total_portfolio_value p > MAX_POSITION_SIZE then
        position_issue ticker (position_size total_portfolio_value p)
          # position_issues total_portfolio_value rest
      else position_issues total_portfolio_value rest)"

text \<open>The second loop: shares added up per sector, in a dict that starts empty.\<close>

fun sector_exposures :: "(string \<times> position) list \<Rightarrow> (string \<times> int) list \<Rightarrow> (string \<times> int) list" where
  "sector_exposures [] acc = acc"
| "sector_exposures ((ticker, p) # rest) acc =
     (if shares p > 0 then
        (case get_sa_sector_exposure ticker of
           None \<Rightarrow> sector_exposures rest acc
         | Some sector \<Rightarrow>
             if sector \<noteq> [] then
               sector_exposures rest (dict_set acc sector (dict_get acc sector 0 + shares p))
             else sector_exposures rest acc)
      else sector_exposures rest acc)"

definition sector_exposure_ratio :: "(string \<times> int) list \<Rightarrow> int \<Rightarrow> real" where
  "sector_exposure_ratio exposures exposure =
     (if sum_list (map snd exposures) > 0
      then real_of_int exposure / real_of_int (sum_list (map snd exposures)) else 0)"

definition sector_issue :: "string \<Rightarrow> real \<Rightarrow> json" where
  "sector_issue sector ratio =
     JObj [(''sector'', JStr sector),
           (''issue'', JStr ''Sector exposure exceeds 30% limit''),
           (''current_exposure'', JStr (format_percent2 ratio)),
           (''max_allowed'', JStr (format_percent2 MAX_SECTOR_EXPOSURE))]"

text \<open>The third loop, over the items of the exposure dict.\<close>

fun sector_issues :: "(string \<times> int) list \<Rightarrow> (string \<times> int) list \<Rightarrow> json list" where
  "sector_issues exposures [] = []"
| "sector_issues exposures ((sector, exposure) # rest) =
     (if sector_exposure_ratio exposures exposure > MAX_SECTOR_EXPOSURE then
        sector_issue sector (sector_exposure_ratio exposures exposure) # sector_issues exposures rest
      else sector_issues exposures rest)"

definition compliance_issues :: "portfolio \<Rightarrow> json list" where
  "compliance_issues pf =
     position_issues (total_cash pf) (positions pf)
       @ sector_issues (sector_exposures (positions pf) []) (sector_exposures (positions pf) [])"

definition compliance_signal :: "portfolio \<Rightarrow> analyst_signal" where
  "compliance_signal pf =
     \<lparr>signal = (if compliance_issues pf = [] then ''COMPLIANT'' else ''NON_COMPLIANT''),
      confidence = (if compliance_issues pf = [] then 1 else 8 / 10),
      reasoning = JObj [(''regulatory_body'', JStr REGULATORY_BODY),
                        (''compliance_issues'', JArr (compliance_issues pf)),
                        (''regulatory_limits'', JObj regulatory_context)],
      max_position_size = MAX_POSITION_SIZE\<rparr>"

definition sa_regulatory_compliance_agent :: "'r env \<Rightarrow> agent_state \<Rightarrow> error + agent_state" where
  "sa_regulatory_compliance_agent env st =
     (case state_get_model env st of
        Inl e \<Rightarrow> Inl e
      | Inr llm \<Rightarrow>
          Inr (record_signals st ''sa_regulatory_compliance''
                 [(''PORTFOLIO'', compliance_signal (data_portfolio st))]))"

subsection \<open>Currency risk\<close>

definition currency_sensitive_stocks :: "(string \<times> string) list" where
  "currency_sensitive_stocks =
     [(''BHP'', ''high''), (''AGL'', ''high''), (''SOL'', ''high''), (''MTN'', ''medium''),
      (''VOD'', ''medium''), (''NPN'', ''high''), (''SHP'', ''low''), (''WHL'', ''low''),
      (''TBS'', ''low''), (''BID'', ''low''), (''TFG'', ''low''), (''MRP'', ''low''),
      (''CLS'', ''low''), (''SBK'', ''medium''), (''FSR'', ''medium''), (''NED'', ''medium''),
      (''ABG'', ''medium'')]"

text \<open>
  \<^verbatim>\<open>economic_indicators.get(key, 0)\<close>: the float stored under the key, or the integer 0.
\<close>

definition indicator_get :: "(string \<times> real) list \<Rightarrow> string \<Rightarrow> json" where
  "indicator_get d k = (case map_of d k of None \<Rightarrow> JInt 0 | Some v \<Rightarrow> JFloat v)"

text \<open>The number a numeric value stands for, as comparisons read it.\<close>

fun num_value :: "json \<Rightarrow> real" where
  "num_value (JInt i) = real_of_int i"
| "num_value (JFloat x) = x"
| "num_value v = 0"

record currency_context =
  base_currency :: string
  fx_rates :: "(string \<times> real) list"
  inflation :: json
  repo_rate :: json
  current_account :: json
  budget_deficit :: json

definition make_currency_context :: "(string \<times> real) list \<Rightarrow> (string \<times> real) list \<Rightarrow> currency_context" where
  "make_currency_context rates economic_indicators =
     \<lparr>base_currency = ''ZAR'', fx_rates = rates,
      inflation = indicator_get economic_indicators ''SA_CPI'',
      repo_rate = indicator_get economic_indicators ''SA_REPO_RATE'',
      current_account = indicator_get economic_indicators ''SA_CURRENT_ACCOUNT'',
      budget_deficit = indicator_get economic_indicators ''SA_BUDGET_DEFICIT''\<rparr>"

definition currency_context_json :: "currency_context \<Rightarrow> json" where
  "currency_context_json c =
     JObj [(''base_currency'', JStr (base_currency c)),
           (''fx_rates'', floats_json (fx_rates c)),
           (''inflation'', inflation c),
           (''repo_rate'', repo_rate c),
           (''current_account'', current_account c),
           (''budget_deficit'', budget_deficit c)]"

text \<open>The body of the loop for one valid ticker.\<close>

definition currency_signal :: "currency_context \<Rightarrow> string \<Rightarrow> analyst_signal" where
  "currency_signal c ticker =
     (let sensitivity = dict_get currency_sensitive_stocks ticker ''low'';
          currency_analysis =
            JObj [(''ticker'', JStr ticker),
                  (''currency_sensitivity'', JStr sensitivity),
                  (''zar_volatility_impact'', JStr (if sensitivity = ''high'' then ''high'' else ''low'')),
                  (''inflation_impact'', JStr (if sensitivity = ''high'' then ''high'' else ''medium'')),
                  (''interest_rate_impact'',
                     JStr (if ticker \<in> set [''SBK'', ''FSR'', ''NED'', ''ABG''] then ''high'' else ''low'')),
                  (''fx_context'', currency_context_json c)];
          (sg, cf) =
            (if sensitivity = ''high'' then
               (if num_value (inflation c) > 6 then ''REDUCE'' else ''HOLD'', 8 / 10)
             else if sensitivity = ''medium'' then (''HOLD'', 6 / 10)
             else (''BUY'', 7 / 10))
      in \<lparr>signal = sg, confidence = cf,
          reasoning = JObj [(''currency_sensitivity'', JStr sensitivity),
                            (''zar_analysis'', currency_analysis),
                            (''inflation_impact'', inflation c),
                            (''interest_rate_impact'', repo_rate c)],
          max_position_size = (if sensitivity = ''high'' then 3 / 100 else 5 / 100)\<rparr>)"

fun currency_loop :: "currency_context \<Rightarrow> string list \<Rightarrow> (string \<times> analyst_signal) list
    \<Rightarrow> (string \<times> analyst_signal) list" where
  "currency_loop c [] ticker_analyses = ticker_analyses"
| "currency_loop c (ticker # rest) ticker_analyses =
     (if \<not> validate_sa_ticker ticker then currency_loop c rest ticker_analyses
      else currency_loop c rest (dict_set ticker_analyses ticker (currency_signal c ticker)))"

definition sa_currency_risk_agent :: "'r env \<Rightarrow> world \<Rightarrow> agent_state
    \<Rightarrow> (error + agent_state) \<times> world" where
  "sa_currency_risk_agent env w st =
     (case state_get_model env st of
        Inl e \<Rightarrow> (Inl e, w)
      | Inr llm \<Rightarrow>
          (let (rates, w1) = get_zar_fx_rates w;
               (economic_indicators, w2) = get_sa_economic_indicators w1
           in (Inr (record_signals st ''sa_currency_risk''
                      (currency_loop (make_currency_context rates economic_indicators)
                         (data_tickers st) [])),
               w2)))"

section \<open>Reading results and example inputs\<close>

text \<open>\<^verbatim>\<open>state["data"]["analyst_signals"][agent][ticker]\<close>, if present.\<close>

definition signal_of :: "agent_state \<Rightarrow> string \<Rightarrow> string \<Rightarrow> analyst_signal option" where
  "signal_of st agent ticker =
     (case data_analyst_signals st of
        None \<Rightarrow> None
      | Some m \<Rightarrow> (case map_of m agent of None \<Rightarrow> None | Some sigs \<Rightarrow> map_of sigs ticker))"

text \<open>
  The inflation indicator the currency-risk agent works with:
  \<^verbatim>\<open>economic_indicators.get("SA_CPI", 0)\<close> on what the adapter returns in this world.
\<close>

definition inflation_indicator :: "world \<Rightarrow> real" where
  "inflation_indicator w =
     num_value (indicator_get (fst (get_sa_economic_indicators w)) ''SA_CPI'')"

text \<open>The sensitivity a currency-risk signal reports in its reasoning.\<close>

definition reported_sensitivity :: "analyst_signal \<Rightarrow> json option" where
  "reported_sensitivity s =
     (case reasoning s of JObj kvs \<Rightarrow> map_of kvs ''currency_sensitivity'' | _ \<Rightarrow> None)"

text \<open>A fresh process: empty cache, nothing requested or printed yet.\<close>

definition empty_world :: world where
  "empty_world =
     \<lparr>prices_cache = [], financial_metrics_cache = [], news_cache = [], company_facts_cache = [],
      economic_indicators_cache = [], fx_rates_cache = [], requests = [], printed = [],
      invoked = []\<rparr>"

text \<open>A world whose cache holds economic indicators with the given consumer price index.\<close>

definition world_with_cpi :: "real \<Rightarrow> world" where
  "world_with_cpi x =
     empty_world\<lparr>economic_indicators_cache := [(''SA_ECONOMIC_INDICATORS'', [(''SA_CPI'', x)])]\<rparr>"

definition example_state :: "string list \<Rightarrow> portfolio \<Rightarrow> agent_state" where
  "example_state ts pf =
     \<lparr>metadata = Some [(''model_name'', ''gpt-4o-mini''), (''model_provider'', ''OpenAI'')],
      data_tickers = ts, data_end_date = ''2024-03-01'', data_portfolio = pf,
      data_analyst_signals = None\<rparr>"

text \<open>
  Surroundings in which the network is down and the language model does not answer; typed
  records are the dictionaries themselves.
\<close>

definition offline_env :: "fields env" where
  "offline_env =
     \<lparr>api_key = None, today = ''2024-03-01'',
      http_get = (\<lambda>url. Raised ''Connection refused''),
      mk_Price = Inr, mk_FinancialMetrics = Inr, mk_CompanyNews = Inr, mk_CompanyFacts = Inr,
      model_dump = (\<lambda>r. r),
      get_model = (\<lambda>name provider. Inr (\<lambda>context. Inl (OtherException ''TimeoutError'' ''no reply''))),
      json_loads = (\<lambda>s. Inl (OtherException ''JSONDecodeError'' ''Expecting value'')),
      mk_AnalystSignal = (\<lambda>sg cf rs mp. Inl (OtherException ''ValidationError'' ''invalid''))\<rparr>"

definition empty_portfolio :: portfolio where
  "empty_portfolio = \<lparr>total_cash = 1000000, positions = []\<rparr>"

text \<open>The compliance issues a compliance signal lists in its reasoning.\<close>

definition reported_issues :: "analyst_signal \<Rightarrow> json list" where
  "reported_issues s =
     (case reasoning s of
        JObj kvs \<Rightarrow> (case map_of kvs ''compliance_issues'' of Some (JArr xs) \<Rightarrow> xs | _ \<Rightarrow> [])
      | _ \<Rightarrow> [])"

text \<open>
  The sectors the positions with positive shares map to, one entry per such position.
\<close>

fun position_sectors :: "(string \<times> position) list \<Rightarrow> string list" where
  "position_sectors [] = []"
| "position_sectors ((ticker, p) # rest) =
     (if shares p > 0
      then (case get_sa_sector_exposure ticker of
              None \<Rightarrow> position_sectors rest
            | Some s \<Rightarrow> s # position_sectors rest)
      else position_sectors rest)"

definition represented_sectors :: "portfolio \<Rightarrow> string set" where
  "represented_sectors pf = set (position_sectors (positions pf))"

text \<open>Example portfolios: one position of 6 percent, and four small positions in four sectors.\<close>

definition concentrated_portfolio :: portfolio where
  "concentrated_portfolio = \<lparr>total_cash = 1000000, positions = [(''NPN'', \<lparr>shares = 600\<rparr>)]\<rparr>"

definition spread_portfolio :: portfolio where
  "spread_portfolio =
     \<lparr>total_cash = 1000000,
      positions = [(''SBK'', \<lparr>shares = 1\<rparr>), (''BHP'', \<lparr>shares = 1\<rparr>),
                   (''SHP'', \<lparr>shares = 1\<rparr>), (''MTN'', \<lparr>shares = 1\<rparr>)]\<rparr>"

text \<open>
  The ticker a context handed to the language model is about, and whether the model fails
  on a context: \<^verbatim>\<open>llm.invoke\<close> raises, or \<^verbatim>\<open>json.loads\<close> rejects the reply.
\<close>

definition context_ticker :: "json \<Rightarrow> json option" where
  "context_ticker context = (case context of JObj kvs \<Rightarrow> map_of kvs ''ticker'' | _ \<Rightarrow> None)"

definition llm_fails :: "'r env \<Rightarrow> (json \<Rightarrow> error + string) \<Rightarrow> json \<Rightarrow> bool" where
  "llm_fails env llm context =
     (case llm context of
        Inl e \<Rightarrow> True
      | Inr content \<Rightarrow> (case json_loads env content of Inl e \<Rightarrow> True | Inr analysis \<Rightarrow> False))"

text \<open>
  What the request for one ticker format gives the loop of \<^verbatim>\<open>get_jse_prices\<close>: the
  parsed body when the response has status 200 and its body parses, nothing otherwise.
\<close>

definition format_answer :: "'r env \<Rightarrow> string \<Rightarrow> json option" where
  "format_answer env url =
     (case http_get env url of
        Raised msg \<Rightarrow> None
      | Returned resp \<Rightarrow>
          if status_code resp = 200
          then (case json_body resp of Inr data \<Rightarrow> Some data | Inl msg \<Rightarrow> None)
          else None)"

text \<open>The calls made through the adapter's session.\<close>

fun is_session_get :: "call \<Rightarrow> bool" where
  "is_session_get (SessionGet url headers) = True"
| "is_session_get (RequestsGet url headers) = False"

definition session_requests :: "call list \<Rightarrow> call list" where
  "session_requests cs = filter is_session_get cs"

text \<open>An example body of a reply, with an entry for each data kind.\<close>

definition example_body :: json where
  "example_body =
     JObj [(''prices'', JArr [JObj [(''close'', JFloat 100)]]),
           (''financial_metrics'', JArr [JObj [(''ticker'', JStr ''NPN'')]]),
           (''news'', JArr [JObj [(''title'', JStr ''Record profit growth'')]]),
           (''company_facts'', JObj [(''name'', JStr ''Naspers'')])]"

definition ok_response :: "string + json \<Rightarrow> http_outcome" where
  "ok_response body = Returned \<lparr>status_code = 200, reason = ''OK'', json_body = body\<rparr>"

text \<open>Surroundings whose server answers every request with status 200 and the example body.\<close>

definition answering_env :: "fields env" where
  "answering_env = offline_env\<lparr>http_get := (\<lambda>url. ok_response (Inr example_body))\<rparr>"

text \<open>
  Surroundings whose server answers every request with status 200; the body of the answer
  for the plain ticker NPN does not parse, every other body is the example.
\<close>

definition unparseable_first_env :: "fields env" where
  "unparseable_first_env =
     offline_env\<lparr>http_get := (\<lambda>url.
        if url = prices_url ''NPN'' ''2024-01-01'' ''2024-03-01''
        then ok_response (Inl ''Expecting value: line 1 column 1 (char 0)'')
        else ok_response (Inr example_body))\<rparr>"




section \<open>Properties\<close>

lemma sector_of_top_stock:
  "t \<in> set TOP_STOCKS \<Longrightarrow> \<exists>s. get_sa_sector_exposure t = Some s \<and> s \<in> set SECTORS"
  unfolding TOP_STOCKS_def get_sa_sector_exposure_def sector_mapping_def SECTORS_def
  by auto

subsection \<open>Auxiliary facts\<close>

lemma map_of_dict_set: "map_of (dict_set d k v) k' = (if k' = k then Some v else map_of d k')"
  by (induction d) auto

lemma signal_of_record_signals: "signal_of (record_signals st a sigs) a t = map_of sigs t"
  by (simp add: signal_of_def record_signals_def map_of_dict_set)

lemma currency_loop_lookup:
  "map_of (currency_loop c ts acc) t =
     (if t \<in> set ts \<and> validate_sa_ticker t then Some (currency_signal c t) else map_of acc t)"
  by (induction ts arbitrary: acc) (auto simp: map_of_dict_set)

lemma is_jse_ticker_iff: "is_jse_ticker t \<longleftrightarrow> t \<in> set TOP_STOCKS"
  unfolding is_jse_ticker_def TOP_STOCKS_def isalpha_def isalpha_char_def
  by auto

lemma validate_iff: "validate_sa_ticker t \<longleftrightarrow> t \<in> set TOP_STOCKS"
  by (simp add: validate_sa_ticker_def is_jse_ticker_iff)

lemma economic_after_fx:
  "fst (get_sa_economic_indicators (snd (get_zar_fx_rates w))) = fst (get_sa_economic_indicators w)"
  by (simp add: get_sa_economic_indicators_def get_zar_fx_rates_def Let_def split: option.splits)

lemma currency_agent_raises:
  "state_get_model env st = Inl e \<Longrightarrow> sa_currency_risk_agent env w st = (Inl e, w)"
  by (simp add: sa_currency_risk_agent_def)

lemma currency_agent_returns:
  assumes "state_get_model env st = Inr llm"
  shows "sa_currency_risk_agent env w st =
     (Inr (record_signals st ''sa_currency_risk''
             (currency_loop
                (make_currency_context (fst (get_zar_fx_rates w)) (fst (get_sa_economic_indicators w)))
                (data_tickers st) [])),
      snd (get_sa_economic_indicators (snd (get_zar_fx_rates w))))"
  using assms
  by (simp add: sa_currency_risk_agent_def case_prod_unfold Let_def economic_after_fx)

lemma currency_agent_signal:
  assumes "state_get_model env st = Inr llm"
    and "t \<in> set (data_tickers st)" and "t \<in> set TOP_STOCKS"
  shows "\<exists>st' w'. sa_currency_risk_agent env w st = (Inr st', w')
     \<and> signal_of st' ''sa_currency_risk'' t =
         Some (currency_signal
                 (make_currency_context (fst (get_zar_fx_rates w)) (fst (get_sa_economic_indicators w))) t)"
proof -
  have "signal_of (record_signals st ''sa_currency_risk''
             (currency_loop
                (make_currency_context (fst (get_zar_fx_rates w)) (fst (get_sa_economic_indicators w)))
                (data_tickers st) [])) ''sa_currency_risk'' t =
         Some (currency_signal
                 (make_currency_context (fst (get_zar_fx_rates w)) (fst (get_sa_economic_indicators w))) t)"
    using assms(2,3)
    by (simp only: signal_of_record_signals currency_loop_lookup validate_iff) simp
  with currency_agent_returns [OF assms(1), of w] show ?thesis
    by blast
qed

lemma absent_tickers:
  "{t \<in> set TOP_STOCKS. map_of currency_sensitive_stocks t = None} = {''IMP'', ''ANG'', ''AMS''}"
proof -
  have "filter (\<lambda>t. map_of currency_sensitive_stocks t = None) TOP_STOCKS = [''IMP'', ''ANG'', ''AMS'']"
    by code_simp
  then have "set (filter (\<lambda>t. map_of currency_sensitive_stocks t = None) TOP_STOCKS) = {''IMP'', ''ANG'', ''AMS''}"
    by simp
  then show ?thesis
    by (simp only: set_filter)
qed

lemma currency_signal_absent:
  assumes "map_of currency_sensitive_stocks t = None"
  shows "signal (currency_signal c t) = ''BUY''"
    and "confidence (currency_signal c t) = 7 / 10"
    and "max_position_size (currency_signal c t) = 5 / 100"
    and "reported_sensitivity (currency_signal c t) = Some (JStr ''low'')"
proof -
  have s: "dict_get currency_sensitive_stocks t ''low'' = ''low''"
    using assms by (simp add: dict_get_def)
  show "signal (currency_signal c t) = ''BUY''"
    unfolding currency_signal_def s Let_def by simp
  show "confidence (currency_signal c t) = 7 / 10"
    unfolding currency_signal_def s Let_def by simp
  show "max_position_size (currency_signal c t) = 5 / 100"
    unfolding currency_signal_def s Let_def by simp
  show "reported_sensitivity (currency_signal c t) = Some (JStr ''low'')"
    unfolding currency_signal_def reported_sensitivity_def s Let_def by simp
qed

lemma currency_signal_high:
  assumes "map_of currency_sensitive_stocks t = Some ''high''"
  shows "signal (currency_signal c t) = (if num_value (inflation c) > 6 then ''REDUCE'' else ''HOLD'')"
    and "confidence (currency_signal c t) = 8 / 10"
proof -
  have s: "dict_get currency_sensitive_stocks t ''low'' = ''high''"
    using assms by (simp add: dict_get_def)
  show "signal (currency_signal c t) = (if num_value (inflation c) > 6 then ''REDUCE'' else ''HOLD'')"
    unfolding currency_signal_def s Let_def by simp
  show "confidence (currency_signal c t) = 8 / 10"
    unfolding currency_signal_def s Let_def by simp
qed

lemma example_model:
  "\<exists>llm. state_get_model offline_env (example_state ts pf) = Inr llm"
  by (simp add: state_get_model_def offline_env_def example_state_def)

subsection \<open>Sector lookup\<close>

text \<open>
  Claim C8. For every ticker of the allow-list \<open>TOP_STOCKS\<close>, the sector lookup
  \<open>get_sa_sector_exposure\<close> returns a member of \<open>SECTORS\<close>; it maps NPN to Technology
  and SBK to Financial Services. The lookup is a function of the ticker alone: it takes no
  other argument and reads no state.
\<close>

theorem sector_lookup_in_sectors: "(\<forall>t \<in> set TOP_STOCKS. \<exists>s \<in> set SECTORS. get_sa_sector_exposure t = Some s)
   \<and> get_sa_sector_exposure ''NPN'' = Some ''Technology''
   \<and> get_sa_sector_exposure ''SBK'' = Some ''Financial Services''"
proof -
  have a: "\<forall>t \<in> set TOP_STOCKS. \<exists>s \<in> set SECTORS. get_sa_sector_exposure t = Some s"
  proof
    fix t assume "t \<in> set TOP_STOCKS"
    from sector_of_top_stock [OF this]
    obtain s where "get_sa_sector_exposure t = Some s" and "s \<in> set SECTORS"
      by (elim exE conjE)
    then show "\<exists>s \<in> set SECTORS. get_sa_sector_exposure t = Some s"
      by (intro bexI)
  qed
  have b: "get_sa_sector_exposure ''NPN'' = Some ''Technology''"
    by (simp add: get_sa_sector_exposure_def sector_mapping_def)
  have c: "get_sa_sector_exposure ''SBK'' = Some ''Financial Services''"
    by (simp add: get_sa_sector_exposure_def sector_mapping_def)
  from a b c show ?thesis by (intro conjI)
qed

theorem sector_lookup_in_sectors_witness:
  "''NPN'' \<in> set TOP_STOCKS \<and> (\<exists>s \<in> set SECTORS. get_sa_sector_exposure ''NPN'' = Some s)"
proof -
  have m: "''NPN'' \<in> set TOP_STOCKS"
    by (simp add: TOP_STOCKS_def)
  from sector_lookup_in_sectors
  have "\<forall>t \<in> set TOP_STOCKS. \<exists>s \<in> set SECTORS. get_sa_sector_exposure t = Some s"
    by (rule conjunct1)
  from m bspec [OF this m] show ?thesis
    by (rule conjI)
qed

subsection \<open>Currency-risk agent\<close>

text \<open>
  Claim C4. For a valid ticker that the sensitivity table classifies as high, the
  currency-risk agent, once \<open>get_model\<close> has returned, records a signal that is REDUCE
  exactly when the SA\_CPI indicator is strictly above 6.0, is HOLD when the indicator is
  at or below 6.0, and has confidence 0.8 in both cases. (When the state has no metadata
  or \<open>get_model\<close> raises, the agent raises before any signal is recorded:
  \<open>currency_agent_raises\<close>.)
\<close>

theorem high_sensitivity_signal:
  assumes "map_of currency_sensitive_stocks t = Some ''high''"
    and "validate_sa_ticker t"
    and "t \<in> set (data_tickers st)"
    and "state_get_model env st = Inr llm"
  shows "\<exists>st' w' s. sa_currency_risk_agent env w st = (Inr st', w')
     \<and> signal_of st' ''sa_currency_risk'' t = Some s
     \<and> (signal s = ''REDUCE'' \<longleftrightarrow> inflation_indicator w > 6)
     \<and> (inflation_indicator w \<le> 6 \<longrightarrow> signal s = ''HOLD'')
     \<and> confidence s = 8 / 10"
proof -
  let ?c = "make_currency_context (fst (get_zar_fx_rates w)) (fst (get_sa_economic_indicators w))"
  have i: "num_value (inflation ?c) = inflation_indicator w"
    by (simp add: make_currency_context_def inflation_indicator_def)
  have top: "t \<in> set TOP_STOCKS"
    using assms(2) by (simp only: validate_iff)
  from currency_agent_signal [OF assms(4) assms(3) top, of w]
  obtain st' w' where r: "sa_currency_risk_agent env w st = (Inr st', w')"
    and s: "signal_of st' ''sa_currency_risk'' t = Some (currency_signal ?c t)"
    by blast
  have "(signal (currency_signal ?c t) = ''REDUCE'' \<longleftrightarrow> inflation_indicator w > 6)
     \<and> (inflation_indicator w \<le> 6 \<longrightarrow> signal (currency_signal ?c t) = ''HOLD'')
     \<and> confidence (currency_signal ?c t) = 8 / 10"
    using currency_signal_high [OF assms(1), of ?c] by (simp add: i)
  with r s show ?thesis
    by blast
qed

theorem high_sensitivity_signal_witness:
  "map_of currency_sensitive_stocks ''NPN'' = Some ''high'' \<and> validate_sa_ticker ''NPN''
   \<and> ''NPN'' \<in> set (data_tickers (example_state [''NPN''] empty_portfolio))
   \<and> (\<exists>llm. state_get_model offline_env (example_state [''NPN''] empty_portfolio) = Inr llm)
   \<and> inflation_indicator (world_with_cpi 7) > 6
   \<and> (\<exists>st' w' s. sa_currency_risk_agent offline_env (world_with_cpi 7)
                      (example_state [''NPN''] empty_portfolio) = (Inr st', w')
          \<and> signal_of st' ''sa_currency_risk'' ''NPN'' = Some s
          \<and> signal s = ''REDUCE'' \<and> confidence s = 8 / 10)"
proof -
  have a: "map_of currency_sensitive_stocks ''NPN'' = Some ''high''"
    by (simp add: currency_sensitive_stocks_def)
  have b: "validate_sa_ticker ''NPN''"
    by (simp add: validate_iff TOP_STOCKS_def)
  have c: "''NPN'' \<in> set (data_tickers (example_state [''NPN''] empty_portfolio))"
    by (simp add: example_state_def)
  obtain llm where m: "state_get_model offline_env (example_state [''NPN''] empty_portfolio) = Inr llm"
    using example_model by blast
  have d: "inflation_indicator (world_with_cpi 7) > 6"
    by (simp add: inflation_indicator_def world_with_cpi_def empty_world_def
        get_sa_economic_indicators_def cache_get_def indicator_get_def)
  from high_sensitivity_signal [OF a b c m, of "world_with_cpi 7"] d
  have "\<exists>st' w' s. sa_currency_risk_agent offline_env (world_with_cpi 7)
                      (example_state [''NPN''] empty_portfolio) = (Inr st', w')
          \<and> signal_of st' ''sa_currency_risk'' ''NPN'' = Some s
          \<and> signal s = ''REDUCE'' \<and> confidence s = 8 / 10"
    by blast
  with a b c m d show ?thesis
    by blast
qed

text \<open>
  Claim C10. The allow-list tickers absent from the sensitivity table are exactly IMP, ANG
  and AMS. For each of them the agent, once \<open>get_model\<close> has returned, takes the default
  sensitivity low (it reports it in the reasoning of the signal) and records signal BUY
  with confidence 0.7 and maximum position size 0.05, whatever the cache holds for
  inflation and exchange rates.
\<close>

theorem absent_tickers_always_buy:
  "{t \<in> set TOP_STOCKS. map_of currency_sensitive_stocks t = None} = {''IMP'', ''ANG'', ''AMS''}
   \<and> (\<forall>t \<in> {''IMP'', ''ANG'', ''AMS''}. \<forall>(env :: 'r env) w st llm.
         t \<in> set (data_tickers st) \<longrightarrow> state_get_model env st = Inr llm \<longrightarrow>
         (\<exists>st' w' s. sa_currency_risk_agent env w st = (Inr st', w')
            \<and> signal_of st' ''sa_currency_risk'' t = Some s
            \<and> reported_sensitivity s = Some (JStr ''low'')
            \<and> signal s = ''BUY'' \<and> confidence s = 7 / 10 \<and> max_position_size s = 5 / 100))"
proof (rule conjI [OF absent_tickers], intro ballI allI impI)
  fix t :: string and env :: "'r env" and w :: world and st :: agent_state
    and llm :: "json \<Rightarrow> error + string"
  assume "t \<in> {''IMP'', ''ANG'', ''AMS''}" and mem: "t \<in> set (data_tickers st)"
    and m: "state_get_model env st = Inr llm"
  then have "t \<in> {t \<in> set TOP_STOCKS. map_of currency_sensitive_stocks t = None}"
    by (simp only: absent_tickers)
  then have top: "t \<in> set TOP_STOCKS" and none: "map_of currency_sensitive_stocks t = None"
    by simp_all
  let ?c = "make_currency_context (fst (get_zar_fx_rates w)) (fst (get_sa_economic_indicators w))"
  from currency_agent_signal [OF m mem top, of w]
  obtain st' w' where r: "sa_currency_risk_agent env w st = (Inr st', w')"
    and s: "signal_of st' ''sa_currency_risk'' t = Some (currency_signal ?c t)"
    by blast
  from r s currency_signal_absent [OF none, of ?c]
  show "\<exists>st' w' s. sa_currency_risk_agent env w st = (Inr st', w')
            \<and> signal_of st' ''sa_currency_risk'' t = Some s
            \<and> reported_sensitivity s = Some (JStr ''low'')
            \<and> signal s = ''BUY'' \<and> confidence s = 7 / 10 \<and> max_position_size s = 5 / 100"
    by blast
qed

theorem absent_tickers_always_buy_witness:
  "''IMP'' \<in> {''IMP'', ''ANG'', ''AMS''}
   \<and> ''IMP'' \<in> set (data_tickers (example_state [''IMP''] empty_portfolio))
   \<and> (\<exists>llm. state_get_model offline_env (example_state [''IMP''] empty_portfolio) = Inr llm)
   \<and> (\<exists>st' w' s. sa_currency_risk_agent offline_env (world_with_cpi 7)
                      (example_state [''IMP''] empty_portfolio) = (Inr st', w')
          \<and> signal_of st' ''sa_currency_risk'' ''IMP'' = Some s
          \<and> reported_sensitivity s = Some (JStr ''low'')
          \<and> signal s = ''BUY'' \<and> confidence s = 7 / 10 \<and> max_position_size s = 5 / 100)"
proof -
  have a: "''IMP'' \<in> {''IMP'', ''ANG'', ''AMS''}"
    by simp
  have c: "''IMP'' \<in> set (data_tickers (example_state [''IMP''] empty_portfolio))"
    by (simp add: example_state_def)
  obtain llm where m: "state_get_model offline_env (example_state [''IMP''] empty_portfolio) = Inr llm"
    using example_model by blast
  from absent_tickers_always_buy [where ?'r = fields]
  have "\<forall>t \<in> {''IMP'', ''ANG'', ''AMS''}. \<forall>(env :: fields env) w st llm.
         t \<in> set (data_tickers st) \<longrightarrow> state_get_model env st = Inr llm \<longrightarrow>
         (\<exists>st' w' s. sa_currency_risk_agent env w st = (Inr st', w')
            \<and> signal_of st' ''sa_currency_risk'' t = Some s
            \<and> reported_sensitivity s = Some (JStr ''low'')
            \<and> signal s = ''BUY'' \<and> confidence s = 7 / 10 \<and> max_position_size s = 5 / 100)"
    by (rule conjunct2)
  from bspec [OF this a] c m
  have "\<exists>st' w' s. sa_currency_risk_agent offline_env (world_with_cpi 7)
                      (example_state [''IMP''] empty_portfolio) = (Inr st', w')
          \<and> signal_of st' ''sa_currency_risk'' ''IMP'' = Some s
          \<and> reported_sensitivity s = Some (JStr ''low'')
          \<and> signal s = ''BUY'' \<and> confidence s = 7 / 10 \<and> max_position_size s = 5 / 100"
    by blast
  with a c m show ?thesis
    by blast
qed

subsection \<open>Regulatory compliance agent\<close>

lemma format_max_position: "format_percent2 MAX_POSITION_SIZE = ''5.00%''"
  unfolding MAX_POSITION_SIZE_def by code_simp

lemma format_max_sector: "format_percent2 MAX_SECTOR_EXPOSURE = ''30.00%''"
  unfolding MAX_SECTOR_EXPOSURE_def by code_simp

lemma position_issues_member:
  "(t, p) \<in> set ps \<Longrightarrow> shares p > 0 \<Longrightarrow> position_size cash p > MAX_POSITION_SIZE
   \<Longrightarrow> position_issue t (position_size cash p) \<in> set (position_issues cash ps)"
  by (induction ps) auto

lemma position_issues_empty:
  "(\<forall>tp \<in> set ps. shares (snd tp) > 0 \<longrightarrow> position_size cash (snd tp) \<le> MAX_POSITION_SIZE)
   \<Longrightarrow> position_issues cash ps = []"
  by (induction ps) auto

lemma compliance_agent_signal:
  assumes "state_get_model env st = Inr llm"
  shows "\<exists>st'. sa_regulatory_compliance_agent env st = Inr st'
     \<and> signal_of st' ''sa_regulatory_compliance'' ''PORTFOLIO''
         = Some (compliance_signal (data_portfolio st))"
  using assms
  by (simp add: sa_regulatory_compliance_agent_def signal_of_record_signals)

lemma reported_issues_compliance: "reported_issues (compliance_signal pf) = compliance_issues pf"
  by (simp add: reported_issues_def compliance_signal_def)


lemma dict_set_keys: "set (map fst (dict_set d k v)) = insert k (set (map fst d))"
proof (induction d)
  case Nil
  show ?case by simp
next
  case (Cons a d)
  obtain k' v' where a: "a = (k', v')" by (cases a)
  show ?case
  proof (cases "k' = k")
    case True
    then show ?thesis by (simp add: a)
  next
    case False
    then show ?thesis using Cons.IH by (simp add: a insert_commute)
  qed
qed

lemma dict_set_distinct: "distinct (map fst d) \<Longrightarrow> distinct (map fst (dict_set d k v))"
proof (induction d)
  case Nil
  show ?case by simp
next
  case (Cons a d)
  obtain k' v' where a: "a = (k', v')" by (cases a)
  from Cons.prems have d: "distinct (map fst d)" and n: "k' \<notin> set (map fst d)"
    by (simp_all add: a)
  show ?case
  proof (cases "k' = k")
    case True
    then show ?thesis using d n by (simp add: a)
  next
    case False
    have "k' \<notin> set (map fst (dict_set d k v))"
      using False n by (simp only: dict_set_keys) simp
    then show ?thesis using False Cons.IH [OF d] by (simp add: a)
  qed
qed

lemma dict_set_values:
  "kv \<in> set (dict_set d k v) \<Longrightarrow> kv = (k, v) \<or> kv \<in> set d"
proof (induction d)
  case Nil
  then show ?case by simp
next
  case (Cons a d)
  obtain k' v' where a: "a = (k', v')" by (cases a)
  show ?case
  proof (cases "k' = k")
    case True
    then show ?thesis using Cons.prems by (auto simp: a)
  next
    case False
    then have "kv = a \<or> kv \<in> set (dict_set d k v)"
      using Cons.prems by (simp add: a)
    then show ?thesis using Cons.IH by auto
  qed
qed

lemma dict_set_positive:
  fixes v :: int
  assumes "\<forall>kv \<in> set d. 0 < snd kv" and "0 < v"
  shows "\<forall>kv \<in> set (dict_set d k v). 0 < snd kv"
proof
  fix kv assume "kv \<in> set (dict_set d k v)"
  then have "kv = (k, v) \<or> kv \<in> set d" by (rule dict_set_values)
  then show "0 < snd kv" using assms by auto
qed

lemma dict_get_nonneg:
  fixes d :: "(string \<times> int) list"
  assumes "\<forall>kv \<in> set d. 0 < snd kv"
  shows "0 \<le> dict_get d k 0"
proof (cases "map_of d k")
  case None
  then show ?thesis by (simp add: dict_get_def)
next
  case (Some v)
  then have "(k, v) \<in> set d" by (rule map_of_SomeD)
  with assms have "0 < v" by auto
  with Some show ?thesis by (simp add: dict_get_def)
qed

lemma sector_nonempty:
  assumes "get_sa_sector_exposure t = Some s"
  shows "s \<noteq> []"
proof -
  have "list_all (\<lambda>kv. snd kv \<noteq> []) sector_mapping"
    by code_simp
  moreover have "(t, s) \<in> set sector_mapping"
    using assms unfolding get_sa_sector_exposure_def by (rule map_of_SomeD)
  ultimately show ?thesis
    by (auto simp: list_all_iff)
qed

lemma sector_exposures_invariant:
  assumes "P acc"
    and step: "\<And>d s v. P d \<Longrightarrow> 0 < v \<Longrightarrow> P (dict_set d s (dict_get d s 0 + v))"
  shows "P (sector_exposures ps acc)"
  using assms(1)
proof (induction ps arbitrary: acc)
  case Nil
  then show ?case by simp
next
  case (Cons a ps)
  obtain ticker p where a: "a = (ticker, p)" by (cases a)
  note keep = Cons.IH [OF Cons.prems]
  show ?case
  proof (cases "shares p > 0")
    case False
    then show ?thesis using keep by (simp add: a)
  next
    case pos: True
    show ?thesis
    proof (cases "get_sa_sector_exposure ticker")
      case None
      then show ?thesis using pos keep by (simp add: a)
    next
      case (Some sector)
      show ?thesis
      proof (cases "sector = []")
        case True
        then show ?thesis using pos Some keep by (simp add: a)
      next
        case False
        have "P (dict_set acc sector (dict_get acc sector 0 + shares p))"
          using Cons.prems pos by (rule step)
        from Cons.IH [OF this] show ?thesis using pos Some False by (simp add: a)
      qed
    qed
  qed
qed

lemma sector_exposures_positive:
  assumes "\<forall>kv \<in> set acc. 0 < snd kv"
  shows "\<forall>kv \<in> set (sector_exposures ps acc). 0 < snd kv"
proof (rule sector_exposures_invariant [where P = "\<lambda>d. \<forall>kv \<in> set d. 0 < snd kv", OF assms])
  fix d :: "(string \<times> int) list" and s :: string and v :: int
  assume d: "\<forall>kv \<in> set d. 0 < snd kv" and v: "0 < v"
  have "0 < dict_get d s 0 + v"
    using dict_get_nonneg [OF d, of s] v by linarith
  with d show "\<forall>kv \<in> set (dict_set d s (dict_get d s 0 + v)). 0 < snd kv"
    by (rule dict_set_positive)
qed

lemma sector_exposures_distinct:
  assumes "distinct (map fst acc)"
  shows "distinct (map fst (sector_exposures ps acc))"
proof (rule sector_exposures_invariant [where P = "\<lambda>d. distinct (map fst d)", OF assms])
  fix d :: "(string \<times> int) list" and s :: string and v :: int
  assume "distinct (map fst d)"
  then show "distinct (map fst (dict_set d s (dict_get d s 0 + v)))"
    by (rule dict_set_distinct)
qed

lemma sector_exposures_keys:
  "set (map fst (sector_exposures ps acc)) = set (map fst acc) \<union> set (position_sectors ps)"
proof (induction ps arbitrary: acc)
  case Nil
  show ?case by simp
next
  case (Cons a ps)
  obtain ticker p where a: "a = (ticker, p)" by (cases a)
  show ?case
  proof (cases "shares p > 0")
    case False
    then show ?thesis using Cons.IH [of acc] by (simp add: a)
  next
    case pos: True
    show ?thesis
    proof (cases "get_sa_sector_exposure ticker")
      case None
      then show ?thesis using pos Cons.IH [of acc] by (simp add: a)
    next
      case (Some sector)
      then have ne: "sector \<noteq> []" by (rule sector_nonempty)
      have "set (map fst (sector_exposures ps (dict_set acc sector (dict_get acc sector 0 + shares p))))
          = insert sector (set (map fst acc)) \<union> set (position_sectors ps)"
        by (simp only: Cons.IH dict_set_keys)
      then show ?thesis using pos Some ne by (simp add: a)
    qed
  qed
qed

lemma sum_list_bound:
  fixes c :: int
  shows "\<forall>x \<in> set ys. x \<le> c \<Longrightarrow> sum_list ys \<le> int (length ys) * c"
proof (induction ys)
  case Nil
  show ?case by simp
next
  case (Cons y ys)
  then have "y \<le> c" and "sum_list ys \<le> int (length ys) * c" by simp_all
  then show ?case by (simp add: algebra_simps)
qed

lemma sum_list_positive:
  fixes ys :: "int list"
  shows "ys \<noteq> [] \<Longrightarrow> \<forall>x \<in> set ys. 0 < x \<Longrightarrow> 0 < sum_list ys"
proof (induction ys)
  case Nil
  then show ?case by simp
next
  case (Cons y ys)
  show ?case
  proof (cases "ys = []")
    case True
    then show ?thesis using Cons.prems by simp
  next
    case False
    then have "0 < sum_list ys" using Cons by simp
    moreover have "0 < y" using Cons.prems by simp
    ultimately show ?thesis by simp
  qed
qed

lemma some_large_share:
  fixes xs :: "(string \<times> int) list"
  assumes "xs \<noteq> []" and "length xs \<le> 3" and "\<forall>kv \<in> set xs. 0 < snd kv"
  shows "\<exists>kv \<in> set xs. 3 * sum_list (map snd xs) < 10 * snd kv"
proof (rule ccontr)
  let ?T = "sum_list (map snd xs)"
  assume "\<not> ?thesis"
  then have "\<forall>x \<in> set (map (\<lambda>kv. 10 * snd kv) xs). x \<le> 3 * ?T"
    by auto
  from sum_list_bound [OF this]
  have "sum_list (map (\<lambda>kv. 10 * snd kv) xs) \<le> int (length xs) * (3 * ?T)"
    by simp
  moreover have "sum_list (map (\<lambda>kv. 10 * snd kv) xs) = 10 * ?T"
    by (rule sum_list_const_mult)
  moreover have pos: "0 < ?T"
  proof (rule sum_list_positive)
    show "map snd xs \<noteq> []" using assms(1) by simp
    show "\<forall>x \<in> set (map snd xs). 0 < x" using assms(3) by simp
  qed
  moreover have "int (length xs) * (3 * ?T) \<le> 3 * (3 * ?T)"
  proof (rule mult_right_mono)
    show "int (length xs) \<le> 3" using assms(2) by simp
    show "0 \<le> 3 * ?T" using pos by simp
  qed
  ultimately show False by linarith
qed


lemma ratio_exceeds:
  fixes e :: int
  assumes "0 < sum_list (map snd xs)" and "3 * sum_list (map snd xs) < 10 * e"
  shows "sector_exposure_ratio xs e > MAX_SECTOR_EXPOSURE"
proof -
  let ?T = "sum_list (map snd xs)"
  have "real_of_int (3 * ?T) < real_of_int (10 * e)"
    using assms(2) by (simp only: of_int_less_iff)
  then have "3 * real_of_int ?T < 10 * real_of_int e"
    by simp
  moreover have "0 < real_of_int ?T"
    using assms(1) by simp
  ultimately have "30 / 100 < real_of_int e / real_of_int ?T"
    by (simp add: field_simps)
  then show ?thesis
    using assms(1) by (simp add: sector_exposure_ratio_def MAX_SECTOR_EXPOSURE_def)
qed

lemma sector_issues_nonempty:
  "\<exists>kv \<in> set rest. sector_exposure_ratio xs (snd kv) > MAX_SECTOR_EXPOSURE
   \<Longrightarrow> sector_issues xs rest \<noteq> []"
proof (induction rest)
  case Nil
  then show ?case by simp
next
  case (Cons a rest)
  obtain s e where a: "a = (s, e)" by (cases a)
  show ?case
  proof (cases "sector_exposure_ratio xs e > MAX_SECTOR_EXPOSURE")
    case True
    then show ?thesis by (simp add: a)
  next
    case False
    then have "\<exists>kv \<in> set rest. sector_exposure_ratio xs (snd kv) > MAX_SECTOR_EXPOSURE"
      using Cons.prems by (simp add: a)
    then have "sector_issues xs rest \<noteq> []" by (rule Cons.IH)
    then show ?thesis using False by (simp add: a)
  qed
qed

lemma ratios_sum_to_one:
  assumes "0 < sum_list (map snd xs)"
  shows "sum_list (map (\<lambda>kv. sector_exposure_ratio xs (snd kv)) xs) = 1"
proof -
  let ?T = "sum_list (map snd xs)"
  have "sum_list (map (\<lambda>kv. real_of_int (snd kv) / c) ys) = real_of_int (sum_list (map snd ys)) / c"
    for c :: real and ys :: "(string \<times> int) list"
    by (induction ys) (simp_all add: add_divide_distrib)
  from this [of "real_of_int ?T" xs]
  have "sum_list (map (\<lambda>kv. real_of_int (snd kv) / real_of_int ?T) xs) = 1"
    using assms by simp
  then show ?thesis
    using assms by (simp add: sector_exposure_ratio_def)
qed

lemma few_sectors_issue:
  assumes "set (position_sectors ps) \<noteq> {}" and "card (set (position_sectors ps)) \<le> 3"
  shows "sector_issues (sector_exposures ps []) (sector_exposures ps []) \<noteq> []"
    and "sum_list (map (\<lambda>kv. sector_exposure_ratio (sector_exposures ps []) (snd kv))
           (sector_exposures ps [])) = 1"
    and "\<exists>kv \<in> set (sector_exposures ps []).
           sector_exposure_ratio (sector_exposures ps []) (snd kv) > MAX_SECTOR_EXPOSURE"
proof -
  let ?xs = "sector_exposures ps []"
  have keys: "set (map fst ?xs) = set (position_sectors ps)"
    using sector_exposures_keys [of ps "[]"] by simp
  have dist: "distinct (map fst ?xs)"
    by (rule sector_exposures_distinct) simp
  have posv: "\<forall>kv \<in> set ?xs. 0 < snd kv"
    by (rule sector_exposures_positive) simp
  have "length ?xs = card (set (map fst ?xs))"
    using distinct_card [OF dist] by simp
  then have len: "length ?xs \<le> 3"
    using assms(2) by (simp only: keys)
  have ne: "?xs \<noteq> []"
    using assms(1) keys by auto
  have T: "0 < sum_list (map snd ?xs)"
  proof (rule sum_list_positive)
    show "map snd ?xs \<noteq> []" using ne by simp
    show "\<forall>x \<in> set (map snd ?xs). 0 < x" using posv by simp
  qed
  from some_large_share [OF ne len posv]
  obtain kv where kv: "kv \<in> set ?xs" and big: "3 * sum_list (map snd ?xs) < 10 * snd kv"
    by blast
  have r: "sector_exposure_ratio ?xs (snd kv) > MAX_SECTOR_EXPOSURE"
    using T big by (rule ratio_exceeds)
  with kv show ex: "\<exists>kv \<in> set ?xs. sector_exposure_ratio ?xs (snd kv) > MAX_SECTOR_EXPOSURE"
    by blast
  then show "sector_issues ?xs ?xs \<noteq> []"
    by (rule sector_issues_nonempty)
  show "sum_list (map (\<lambda>kv. sector_exposure_ratio ?xs (snd kv)) ?xs) = 1"
    using T by (rule ratios_sum_to_one)
qed


lemma concentrated_sectors: "represented_sectors concentrated_portfolio = {''Technology''}"
  by (simp add: represented_sectors_def concentrated_portfolio_def get_sa_sector_exposure_def
      sector_mapping_def)

lemma concentrated_share:
  "format_percent2 (real_of_int (600 * 100) / 1000000) = ''6.00%''"
  by code_simp

lemma spread_no_sector_issue:
  "sector_issues (sector_exposures (positions spread_portfolio) [])
     (sector_exposures (positions spread_portfolio) []) = []"
  unfolding spread_portfolio_def by code_simp

text \<open>
  Claim C3. For a portfolio with positive total cash given to the regulatory compliance
  agent (once \<open>get_model\<close> has returned): every position with positive shares whose
  value share, shares times 100 divided by total cash, strictly exceeds 5 percent is listed
  in the compliance issues of the recorded signal, with its ticker, its current size
  formatted as a percentage with two decimals and the allowed maximum \<open>5.00%\<close>; and if no
  position with positive shares exceeds 5 percent and the sector check raises no issue,
  the signal is COMPLIANT with confidence 1. Arithmetic is exact (floats read as reals).
\<close>

theorem position_limit_reported:
  assumes "total_cash (data_portfolio st) > 0"
    and "state_get_model env st = Inr llm"
  shows "\<exists>st' s. sa_regulatory_compliance_agent env st = Inr st'
     \<and> signal_of st' ''sa_regulatory_compliance'' ''PORTFOLIO'' = Some s
     \<and> (\<forall>tp \<in> set (positions (data_portfolio st)).
           shares (snd tp) > 0
           \<and> real_of_int (shares (snd tp) * 100) / total_cash (data_portfolio st) > 5 / 100
           \<longrightarrow> JObj [(''ticker'', JStr (fst tp)),
                     (''issue'', JStr ''Position size exceeds 5% limit''),
                     (''current_size'',
                        JStr (format_percent2
                                (real_of_int (shares (snd tp) * 100) / total_cash (data_portfolio st)))),
                     (''max_allowed'', JStr ''5.00%'')]
                 \<in> set (reported_issues s))
     \<and> ((\<forall>tp \<in> set (positions (data_portfolio st)).
            shares (snd tp) > 0
            \<longrightarrow> real_of_int (shares (snd tp) * 100) / total_cash (data_portfolio st) \<le> 5 / 100)
          \<and> sector_issues (sector_exposures (positions (data_portfolio st)) [])
                (sector_exposures (positions (data_portfolio st)) []) = []
          \<longrightarrow> signal s = ''COMPLIANT'' \<and> confidence s = 1)"
proof -
  let ?pf = "data_portfolio st"
  let ?c = "total_cash ?pf"
  have size: "position_size ?c p = real_of_int (shares p * 100) / ?c" for p
    using assms(1) by (simp add: position_size_def)
  have first: "JObj [(''ticker'', JStr (fst tp)),
                     (''issue'', JStr ''Position size exceeds 5% limit''),
                     (''current_size'', JStr (format_percent2 (real_of_int (shares (snd tp) * 100) / ?c))),
                     (''max_allowed'', JStr ''5.00%'')]
                 \<in> set (reported_issues (compliance_signal ?pf))"
    if tp: "tp \<in> set (positions ?pf)" and sh: "shares (snd tp) > 0"
      and big: "real_of_int (shares (snd tp) * 100) / ?c > 5 / 100" for tp
  proof -
    have "(fst tp, snd tp) \<in> set (positions ?pf)" using tp by simp
    moreover have "position_size ?c (snd tp) > MAX_POSITION_SIZE"
      using big by (simp only: size MAX_POSITION_SIZE_def)
    ultimately have "position_issue (fst tp) (position_size ?c (snd tp))
        \<in> set (position_issues ?c (positions ?pf))"
      using sh by (intro position_issues_member)
    then have "position_issue (fst tp) (position_size ?c (snd tp)) \<in> set (compliance_issues ?pf)"
      by (simp add: compliance_issues_def)
    then show ?thesis
      by (simp only: reported_issues_compliance position_issue_def size format_max_position)
  qed
  have second: "signal (compliance_signal ?pf) = ''COMPLIANT'' \<and> confidence (compliance_signal ?pf) = 1"
    if small: "\<forall>tp \<in> set (positions ?pf). shares (snd tp) > 0
            \<longrightarrow> real_of_int (shares (snd tp) * 100) / ?c \<le> 5 / 100"
      and none: "sector_issues (sector_exposures (positions ?pf) []) (sector_exposures (positions ?pf) []) = []"
  proof -
    have "\<forall>tp \<in> set (positions ?pf). shares (snd tp) > 0
        \<longrightarrow> position_size ?c (snd tp) \<le> MAX_POSITION_SIZE"
      using small by (simp only: size MAX_POSITION_SIZE_def)
    then have "position_issues ?c (positions ?pf) = []"
      by (rule position_issues_empty)
    with none have "compliance_issues ?pf = []"
      by (simp add: compliance_issues_def)
    then show ?thesis
      by (simp add: compliance_signal_def)
  qed
  from compliance_agent_signal [OF assms(2)]
  obtain st' where "sa_regulatory_compliance_agent env st = Inr st'"
    and "signal_of st' ''sa_regulatory_compliance'' ''PORTFOLIO'' = Some (compliance_signal ?pf)"
    by blast
  with first second show ?thesis
    by blast
qed


theorem position_limit_reported_witness:
  "total_cash (data_portfolio (example_state [''NPN''] concentrated_portfolio)) > 0
   \<and> (\<exists>llm. state_get_model offline_env (example_state [''NPN''] concentrated_portfolio) = Inr llm)
   \<and> (\<exists>st' s. sa_regulatory_compliance_agent offline_env
                    (example_state [''NPN''] concentrated_portfolio) = Inr st'
          \<and> signal_of st' ''sa_regulatory_compliance'' ''PORTFOLIO'' = Some s
          \<and> JObj [(''ticker'', JStr ''NPN''),
                   (''issue'', JStr ''Position size exceeds 5% limit''),
                   (''current_size'', JStr ''6.00%''),
                   (''max_allowed'', JStr ''5.00%'')] \<in> set (reported_issues s))
   \<and> total_cash (data_portfolio (example_state [] spread_portfolio)) > 0
   \<and> (\<exists>st' s. sa_regulatory_compliance_agent offline_env (example_state [] spread_portfolio) = Inr st'
          \<and> signal_of st' ''sa_regulatory_compliance'' ''PORTFOLIO'' = Some s
          \<and> signal s = ''COMPLIANT'' \<and> confidence s = 1)"
proof -
  let ?st = "example_state [''NPN''] concentrated_portfolio"
  let ?st2 = "example_state [] spread_portfolio"
  have p: "data_portfolio ?st = concentrated_portfolio"
    and p2: "data_portfolio ?st2 = spread_portfolio"
    by (simp_all add: example_state_def)
  have c: "total_cash (data_portfolio ?st) > 0"
    unfolding p by (simp add: concentrated_portfolio_def)
  have c2: "total_cash (data_portfolio ?st2) > 0"
    unfolding p2 by (simp add: spread_portfolio_def)
  obtain llm where m: "state_get_model offline_env ?st = Inr llm"
    using example_model by blast
  obtain llm2 where m2: "state_get_model offline_env ?st2 = Inr llm2"
    using example_model by blast
  from position_limit_reported [OF c m]
  obtain st' s where r: "sa_regulatory_compliance_agent offline_env ?st = Inr st'"
    and s: "signal_of st' ''sa_regulatory_compliance'' ''PORTFOLIO'' = Some s"
    and i: "\<forall>tp \<in> set (positions (data_portfolio ?st)).
           shares (snd tp) > 0
           \<and> real_of_int (shares (snd tp) * 100) / total_cash (data_portfolio ?st) > 5 / 100
           \<longrightarrow> JObj [(''ticker'', JStr (fst tp)),
                     (''issue'', JStr ''Position size exceeds 5% limit''),
                     (''current_size'',
                        JStr (format_percent2
                                (real_of_int (shares (snd tp) * 100) / total_cash (data_portfolio ?st)))),
                     (''max_allowed'', JStr ''5.00%'')]
                 \<in> set (reported_issues s)"
    by blast
  have "(''NPN'', \<lparr>shares = 600\<rparr>) \<in> set (positions (data_portfolio ?st))"
    unfolding p by (simp add: concentrated_portfolio_def)
  from bspec [OF i this, unfolded p]
  have "JObj [(''ticker'', JStr ''NPN''),
                   (''issue'', JStr ''Position size exceeds 5% limit''),
                   (''current_size'', JStr (format_percent2 (real_of_int (600 * 100) / 1000000))),
                   (''max_allowed'', JStr ''5.00%'')] \<in> set (reported_issues s)"
    by (simp add: concentrated_portfolio_def)
  then have one: "JObj [(''ticker'', JStr ''NPN''),
                   (''issue'', JStr ''Position size exceeds 5% limit''),
                   (''current_size'', JStr ''6.00%''),
                   (''max_allowed'', JStr ''5.00%'')] \<in> set (reported_issues s)"
    by (simp only: concentrated_share)
  from position_limit_reported [OF c2 m2]
  obtain st2' s2 where r2: "sa_regulatory_compliance_agent offline_env ?st2 = Inr st2'"
    and s2: "signal_of st2' ''sa_regulatory_compliance'' ''PORTFOLIO'' = Some s2"
    and j: "(\<forall>tp \<in> set (positions (data_portfolio ?st2)).
            shares (snd tp) > 0
            \<longrightarrow> real_of_int (shares (snd tp) * 100) / total_cash (data_portfolio ?st2) \<le> 5 / 100)
          \<and> sector_issues (sector_exposures (positions (data_portfolio ?st2)) [])
                (sector_exposures (positions (data_portfolio ?st2)) []) = []
          \<longrightarrow> signal s2 = ''COMPLIANT'' \<and> confidence s2 = 1"
    by blast
  have "\<forall>tp \<in> set (positions (data_portfolio ?st2)).
            shares (snd tp) > 0
            \<longrightarrow> real_of_int (shares (snd tp) * 100) / total_cash (data_portfolio ?st2) \<le> 5 / 100"
    unfolding p2 by (simp add: spread_portfolio_def)
  moreover have "sector_issues (sector_exposures (positions (data_portfolio ?st2)) [])
                (sector_exposures (positions (data_portfolio ?st2)) []) = []"
    by (simp only: p2 spread_no_sector_issue)
  ultimately have two: "signal s2 = ''COMPLIANT'' \<and> confidence s2 = 1"
    using j by blast
  from c m r s one c2 r2 s2 two show ?thesis
    by blast
qed

text \<open>
  Claim C9. The sector check divides the shares of each represented sector by the sum over
  all represented sectors, so the ratios sum to 1. Hence a portfolio whose positions with
  positive shares map to at least one and at most three distinct sectors has a sector
  whose ratio is strictly above the limit 0.30, the issue list is not empty, and the agent
  (once \<open>get_model\<close> has returned) records NON\_COMPLIANT, never COMPLIANT.
\<close>

theorem few_sectors_non_compliant:
  assumes "represented_sectors (data_portfolio st) \<noteq> {}"
    and "card (represented_sectors (data_portfolio st)) \<le> 3"
    and "state_get_model env st = Inr llm"
  shows "\<exists>st' s. sa_regulatory_compliance_agent env st = Inr st'
     \<and> signal_of st' ''sa_regulatory_compliance'' ''PORTFOLIO'' = Some s
     \<and> signal s = ''NON_COMPLIANT'' \<and> signal s \<noteq> ''COMPLIANT''
     \<and> reported_issues s \<noteq> []
     \<and> (\<exists>kv \<in> set (sector_exposures (positions (data_portfolio st)) []).
           sector_exposure_ratio (sector_exposures (positions (data_portfolio st)) []) (snd kv)
             > MAX_SECTOR_EXPOSURE)
     \<and> sum_list (map (\<lambda>kv. sector_exposure_ratio
                               (sector_exposures (positions (data_portfolio st)) []) (snd kv))
           (sector_exposures (positions (data_portfolio st)) [])) = 1"
proof -
  let ?pf = "data_portfolio st"
  let ?xs = "sector_exposures (positions ?pf) []"
  have a: "set (position_sectors (positions ?pf)) \<noteq> {}"
    and b: "card (set (position_sectors (positions ?pf))) \<le> 3"
    using assms(1,2) by (simp_all add: represented_sectors_def)
  note f = few_sectors_issue [OF a b]
  have issues: "compliance_issues ?pf \<noteq> []"
    using f(1) by (simp add: compliance_issues_def)
  then have "signal (compliance_signal ?pf) = ''NON_COMPLIANT''"
    by (simp add: compliance_signal_def)
  moreover have "reported_issues (compliance_signal ?pf) \<noteq> []"
    using issues by (simp add: reported_issues_compliance)
  moreover from compliance_agent_signal [OF assms(3)]
  obtain st' where "sa_regulatory_compliance_agent env st = Inr st'"
    and "signal_of st' ''sa_regulatory_compliance'' ''PORTFOLIO'' = Some (compliance_signal ?pf)"
    by blast
  ultimately show ?thesis
    using f(2,3) by auto
qed

theorem few_sectors_non_compliant_witness:
  "represented_sectors (data_portfolio (example_state [''NPN''] concentrated_portfolio)) \<noteq> {}
   \<and> card (represented_sectors (data_portfolio (example_state [''NPN''] concentrated_portfolio))) \<le> 3
   \<and> (\<exists>llm. state_get_model offline_env (example_state [''NPN''] concentrated_portfolio) = Inr llm)
   \<and> (\<exists>st' s. sa_regulatory_compliance_agent offline_env
                    (example_state [''NPN''] concentrated_portfolio) = Inr st'
          \<and> signal_of st' ''sa_regulatory_compliance'' ''PORTFOLIO'' = Some s
          \<and> signal s = ''NON_COMPLIANT'')"
proof -
  let ?st = "example_state [''NPN''] concentrated_portfolio"
  have p: "data_portfolio ?st = concentrated_portfolio"
    by (simp add: example_state_def)
  have a: "represented_sectors (data_portfolio ?st) \<noteq> {}"
    by (simp add: p concentrated_sectors)
  have b: "card (represented_sectors (data_portfolio ?st)) \<le> 3"
    by (simp add: p concentrated_sectors)
  obtain llm where m: "state_get_model offline_env ?st = Inr llm"
    using example_model by blast
  from few_sectors_non_compliant [OF a b m]
  have "\<exists>st' s. sa_regulatory_compliance_agent offline_env ?st = Inr st'
          \<and> signal_of st' ''sa_regulatory_compliance'' ''PORTFOLIO'' = Some s
          \<and> signal s = ''NON_COMPLIANT''"
    by blast
  with a b m show ?thesis
    by blast
qed

subsection \<open>Market analyst agent and the validator\<close>

lemma facts_invoked:
  "invoked (snd (get_sa_company_facts env w t)) = invoked w @ [(''get_sa_company_facts'', t)]"
  by (simp add: get_sa_company_facts_def enter_def Let_def
      split: option.splits sum.splits error.splits)

lemma news_invoked:
  "invoked (snd (get_sa_news env w t d sd)) = invoked w @ [(''get_sa_news'', t)]"
  by (simp add: get_sa_news_def enter_def Let_def
      split: option.splits sum.splits error.splits)

lemma indicators_invoked: "invoked (snd (get_sa_economic_indicators w)) = invoked w"
  by (simp add: get_sa_economic_indicators_def Let_def split: option.splits)

lemma fx_invoked: "invoked (snd (get_zar_fx_rates w)) = invoked w"
  by (simp add: get_zar_fx_rates_def Let_def split: option.splits)

lemma market_loop_invoked:
  "invoked (snd (market_data_loop env idx md w)) = invoked w"
proof (induction idx arbitrary: md w)
  case Nil
  show ?case by simp
next
  case (Cons i idx)
  show ?case
    by (simp add: Cons.IH Let_def split: option.splits sum.splits error.splits)
qed


lemma analyse_invoked:
  "set (map snd (invoked (snd (analyse_ticker env llm mc d t w)))) = insert t (set (map snd (invoked w)))"
proof -
  obtain r1 w1 where f: "get_sa_company_facts env w t = (r1, w1)"
    by (cases "get_sa_company_facts env w t")
  have i1: "invoked w1 = invoked w @ [(''get_sa_company_facts'', t)]"
    using facts_invoked [of env w t] f by simp
  show ?thesis
  proof (cases r1)
    case (Inl e)
    then show ?thesis using f i1 by (simp add: analyse_ticker_def)
  next
    case (Inr cf)
    obtain r2 w2 where n: "get_sa_news env w1 t d None = (r2, w2)"
      by (cases "get_sa_news env w1 t d None")
    have i2: "invoked w2 = invoked w1 @ [(''get_sa_news'', t)]"
      using news_invoked [of env w1 t d None] n by simp
    show ?thesis
    proof (cases r2)
      case (Inl e)
      then show ?thesis using f Inr n i1 i2 by (simp add: analyse_ticker_def)
    next
      case news: (Inr ns)
      then show ?thesis using f Inr n i1 i2
        by (simp add: analyse_ticker_def split: sum.splits)
    qed
  qed
qed

lemma analyse_error:
  assumes "fst (analyse_ticker env llm mc d t w) = Inl e"
  shows "fst (get_sa_company_facts env w t) = Inl e
     \<or> (\<exists>w1. fst (get_sa_news env w1 t d None) = Inl e)"
proof -
  obtain r1 w1 where f: "get_sa_company_facts env w t = (r1, w1)"
    by (cases "get_sa_company_facts env w t")
  show ?thesis
  proof (cases r1)
    case (Inl e1)
    then show ?thesis using f assms by (simp add: analyse_ticker_def)
  next
    case (Inr cf)
    obtain r2 w2 where n: "get_sa_news env w1 t d None = (r2, w2)"
      by (cases "get_sa_news env w1 t d None")
    show ?thesis
    proof (cases r2)
      case (Inl e2)
      then have "e2 = e" using f Inr n assms by (simp add: analyse_ticker_def)
      then have "fst (get_sa_news env w1 t d None) = Inl e" using n Inl by simp
      then show ?thesis by blast
    next
      case news: (Inr ns)
      then show ?thesis using f Inr n assms
        by (simp add: analyse_ticker_def split: sum.splits)
    qed
  qed
qed

lemma llm_fails_analysis:
  assumes "llm_fails env llm context"
  shows "\<exists>e. llm_analysis env llm context = Inl e"
  using assms
  by (auto simp: llm_fails_def llm_analysis_def split: sum.splits)

lemma context_ticker_context:
  "context_ticker (ticker_context env t sector cf ns mc) = Some (JStr t)"
  by (simp add: context_ticker_def ticker_context_def)

lemma default_signal_hold:
  "signal (default_signal e) = ''HOLD''" "confidence (default_signal e) = 5 / 10"
  by (simp_all add: default_signal_def)

lemma analyse_signal:
  assumes "fst (analyse_ticker env llm mc d t w) = Inr s"
    and "\<forall>context. context_ticker context = Some (JStr t) \<longrightarrow> llm_fails env llm context"
  shows "signal s = ''HOLD'' \<and> confidence s = 5 / 10"
proof -
  obtain r1 w1 where f: "get_sa_company_facts env w t = (r1, w1)"
    by (cases "get_sa_company_facts env w t")
  show ?thesis
  proof (cases r1)
    case (Inl e1)
    then show ?thesis using f assms(1) by (simp add: analyse_ticker_def)
  next
    case (Inr cf)
    obtain r2 w2 where n: "get_sa_news env w1 t d None = (r2, w2)"
      by (cases "get_sa_news env w1 t d None")
    show ?thesis
    proof (cases r2)
      case (Inl e2)
      then show ?thesis using f Inr n assms(1) by (simp add: analyse_ticker_def)
    next
      case news: (Inr ns)
      let ?ctx = "ticker_context env t (get_sa_sector_exposure t) cf ns mc"
      have "llm_fails env llm ?ctx"
        using assms(2) context_ticker_context by blast
      then obtain e where "llm_analysis env llm ?ctx = Inl e"
        using llm_fails_analysis by blast
      then have "s = default_signal e"
        using f Inr n news assms(1) by (simp add: analyse_ticker_def)
      then show ?thesis by (simp add: default_signal_hold)
    qed
  qed
qed


lemma analyst_loop_invoked:
  "set (map snd (invoked (snd (analyst_loop env llm mc d ts acc w))))
     \<subseteq> set (map snd (invoked w)) \<union> {t \<in> set ts. validate_sa_ticker t}"
proof (induction ts arbitrary: acc w)
  case Nil
  show ?case by simp
next
  case (Cons t ts)
  show ?case
  proof (cases "validate_sa_ticker t")
    case False
    then show ?thesis using Cons.IH [of acc w] by auto
  next
    case True
    obtain r w' where a: "analyse_ticker env llm mc d t w = (r, w')"
      by (cases "analyse_ticker env llm mc d t w")
    have i: "set (map snd (invoked w')) = insert t (set (map snd (invoked w)))"
      using analyse_invoked [of env llm mc d t w] a by simp
    show ?thesis
    proof (cases r)
      case (Inl e)
      then show ?thesis using True a i by auto
    next
      case (Inr sg)
      then show ?thesis using True a i Cons.IH [of "dict_set acc t sg" w'] by auto
    qed
  qed
qed

lemma analyst_loop_error:
  "fst (analyst_loop env llm mc d ts acc w) = Inl e \<Longrightarrow>
     \<exists>w0 t. t \<in> set ts \<and> validate_sa_ticker t
        \<and> (fst (get_sa_company_facts env w0 t) = Inl e \<or> fst (get_sa_news env w0 t d None) = Inl e)"
proof (induction ts arbitrary: acc w)
  case Nil
  then show ?case by simp
next
  case (Cons t ts)
  show ?case
  proof (cases "validate_sa_ticker t")
    case False
    then have "fst (analyst_loop env llm mc d ts acc w) = Inl e"
      using Cons.prems by simp
    from Cons.IH [OF this] show ?thesis by auto
  next
    case True
    obtain r w' where a: "analyse_ticker env llm mc d t w = (r, w')"
      by (cases "analyse_ticker env llm mc d t w")
    show ?thesis
    proof (cases r)
      case (Inl e')
      then have "fst (analyse_ticker env llm mc d t w) = Inl e"
        using True a Cons.prems by simp
      from analyse_error [OF this] True show ?thesis by auto
    next
      case (Inr sg)
      then have "fst (analyst_loop env llm mc d ts (dict_set acc t sg) w') = Inl e"
        using True a Cons.prems by simp
      from Cons.IH [OF this] show ?thesis by auto
    qed
  qed
qed

lemma analyst_loop_entries:
  "fst (analyst_loop env llm mc d ts acc w) = Inr sigs \<Longrightarrow>
   map_of acc k \<noteq> None \<or> (k \<in> set ts \<and> validate_sa_ticker k) \<Longrightarrow> map_of sigs k \<noteq> None"
proof (induction ts arbitrary: acc w)
  case Nil
  then show ?case by simp
next
  case (Cons t ts)
  show ?case
  proof (cases "validate_sa_ticker t")
    case False
    then have r: "fst (analyst_loop env llm mc d ts acc w) = Inr sigs"
      using Cons.prems(1) by simp
    have "map_of acc k \<noteq> None \<or> (k \<in> set ts \<and> validate_sa_ticker k)"
      using Cons.prems(2) False by auto
    from Cons.IH [OF r this] show ?thesis .
  next
    case True
    obtain r w' where a: "analyse_ticker env llm mc d t w = (r, w')"
      by (cases "analyse_ticker env llm mc d t w")
    show ?thesis
    proof (cases r)
      case (Inl e')
      then show ?thesis using True a Cons.prems(1) by simp
    next
      case (Inr sg)
      then have r: "fst (analyst_loop env llm mc d ts (dict_set acc t sg) w') = Inr sigs"
        using True a Cons.prems(1) by simp
      have "map_of (dict_set acc t sg) k \<noteq> None \<or> (k \<in> set ts \<and> validate_sa_ticker k)"
        using Cons.prems(2) by (auto simp: map_of_dict_set)
      from Cons.IH [OF r this] show ?thesis .
    qed
  qed
qed

lemma analyst_loop_default:
  "fst (analyst_loop env llm mc d ts acc w) = Inr sigs \<Longrightarrow>
   \<forall>context. context_ticker context = Some (JStr k) \<longrightarrow> llm_fails env llm context \<Longrightarrow>
   \<forall>s. map_of acc k = Some s \<longrightarrow> signal s = ''HOLD'' \<and> confidence s = 5 / 10 \<Longrightarrow>
   map_of sigs k = Some s \<Longrightarrow> signal s = ''HOLD'' \<and> confidence s = 5 / 10"
proof (induction ts arbitrary: acc w)
  case Nil
  then show ?case by simp
next
  case (Cons t ts)
  show ?case
  proof (cases "validate_sa_ticker t")
    case False
    then have r: "fst (analyst_loop env llm mc d ts acc w) = Inr sigs"
      using Cons.prems(1) by simp
    from Cons.IH [OF r Cons.prems(2) Cons.prems(3) Cons.prems(4)] show ?thesis .
  next
    case True
    obtain r w' where a: "analyse_ticker env llm mc d t w = (r, w')"
      by (cases "analyse_ticker env llm mc d t w")
    show ?thesis
    proof (cases r)
      case (Inl e')
      then show ?thesis using True a Cons.prems(1) by simp
    next
      case (Inr sg)
      then have r: "fst (analyst_loop env llm mc d ts (dict_set acc t sg) w') = Inr sigs"
        using True a Cons.prems(1) by simp
      have sg: "fst (analyse_ticker env llm mc d t w) = Inr sg"
        using a Inr by simp
      have "\<forall>s. map_of (dict_set acc t sg) k = Some s
               \<longrightarrow> signal s = ''HOLD'' \<and> confidence s = 5 / 10"
      proof (cases "k = t")
        case True
        with analyse_signal [OF sg] Cons.prems(2) show ?thesis
          by (simp add: map_of_dict_set)
      next
        case False
        with Cons.prems(3) show ?thesis
          by (simp add: map_of_dict_set)
      qed
      from Cons.IH [OF r Cons.prems(2) this Cons.prems(4)] show ?thesis .
    qed
  qed
qed

lemma market_data_invoked: "invoked (snd (get_sa_market_data env w idx)) = invoked w"
  by (simp add: get_sa_market_data_def market_loop_invoked split: option.splits)


lemma analyst_agent_cases:
  assumes m: "state_get_model env st = Inr llm"
  shows "\<exists>w3 mc. sa_market_analyst_agent env w st =
           (case get_sa_market_data env w3 None of
              (Inl e, w4) \<Rightarrow> (Inl e, w4)
            | (Inr market_data, w4) \<Rightarrow>
                (case analyst_loop env llm mc (data_end_date st) (data_tickers st) [] w4 of
                   (Inl e, w5) \<Rightarrow> (Inl e, w5)
                 | (Inr ticker_analyses, w5) \<Rightarrow>
                     (Inr (record_signals st ''sa_market_analyst'' ticker_analyses), w5)))
         \<and> invoked w3 = invoked w"
proof -
  obtain ei w1 where a: "get_sa_economic_indicators w = (ei, w1)"
    by (cases "get_sa_economic_indicators w")
  obtain fx w2 where b: "get_zar_fx_rates w1 = (fx, w2)"
    by (cases "get_zar_fx_rates w1")
  have "invoked w1 = invoked w"
    using indicators_invoked [of w] a by simp
  moreover have "invoked w2 = invoked w1"
    using fx_invoked [of w1] b by simp
  ultimately have "invoked w2 = invoked w"
    by simp
  moreover have "sa_market_analyst_agent env w st =
           (case get_sa_market_data env w2 None of
              (Inl e, w4) \<Rightarrow> (Inl e, w4)
            | (Inr market_data, w4) \<Rightarrow>
                (case analyst_loop env llm (sa_context ei fx) (data_end_date st) (data_tickers st) [] w4 of
                   (Inl e, w5) \<Rightarrow> (Inl e, w5)
                 | (Inr ticker_analyses, w5) \<Rightarrow>
                     (Inr (record_signals st ''sa_market_analyst'' ticker_analyses), w5)))"
    by (simp add: sa_market_analyst_agent_def m a b)
  ultimately show ?thesis
    by blast
qed

lemma analyst_agent_raises:
  "state_get_model env st = Inl e \<Longrightarrow> sa_market_analyst_agent env w st = (Inl e, w)"
  by (simp add: sa_market_analyst_agent_def)

lemma analyst_agent_invoked:
  "set (map snd (invoked (snd (sa_market_analyst_agent env w st))))
     \<subseteq> set (map snd (invoked w)) \<union> {t \<in> set (data_tickers st). validate_sa_ticker t}"
proof (cases "state_get_model env st")
  case (Inl e)
  then show ?thesis by (simp add: analyst_agent_raises)
next
  case (Inr llm)
  from analyst_agent_cases [OF Inr, of w] obtain w3 mc where
    r: "sa_market_analyst_agent env w st =
           (case get_sa_market_data env w3 None of
              (Inl e, w4) \<Rightarrow> (Inl e, w4)
            | (Inr market_data, w4) \<Rightarrow>
                (case analyst_loop env llm mc (data_end_date st) (data_tickers st) [] w4 of
                   (Inl e, w5) \<Rightarrow> (Inl e, w5)
                 | (Inr ticker_analyses, w5) \<Rightarrow>
                     (Inr (record_signals st ''sa_market_analyst'' ticker_analyses), w5)))"
    and i: "invoked w3 = invoked w"
    by blast
  obtain r1 w4 where md: "get_sa_market_data env w3 None = (r1, w4)"
    by (cases "get_sa_market_data env w3 None")
  have i4: "invoked w4 = invoked w"
    using market_data_invoked [of env w3 None] md i by simp
  show ?thesis
  proof (cases r1)
    case (Inl e)
    then show ?thesis using r md i4 by simp
  next
    case market: (Inr market_data)
    obtain r2 w5 where lp: "analyst_loop env llm mc (data_end_date st) (data_tickers st) [] w4 = (r2, w5)"
      by (cases "analyst_loop env llm mc (data_end_date st) (data_tickers st) [] w4")
    have "snd (sa_market_analyst_agent env w st) = w5"
      using r md market lp by (cases r2) simp_all
    moreover have "set (map snd (invoked w5))
        \<subseteq> set (map snd (invoked w4)) \<union> {t \<in> set (data_tickers st). validate_sa_ticker t}"
      using analyst_loop_invoked [of env llm mc "data_end_date st" "data_tickers st" "[]" w4] lp
      by simp
    ultimately show ?thesis using i4 by simp
  qed
qed

lemma prices_rejects:
  "\<not> is_jse_ticker t \<Longrightarrow>
     get_jse_prices env w t s e =
       (Inl (OtherException ''ValueError'' (''Invalid JSE ticker format: '' @ t)),
        enter ''get_jse_prices'' t w)"
  by (simp add: get_jse_prices_def)

text \<open>
  Claim C7. The validator \<open>is_jse_ticker\<close> holds exactly for the strings of length 3 to 4
  that are alphabetic and members of \<open>TOP_STOCKS\<close>; it is a function of the string alone.
  For a ticker outside the allow-list it is false, \<open>validate_sa_ticker\<close> is false, a run of
  the market analyst agent invokes no adapter fetch function for that ticker (the trace of
  invocations gains no entry for it), and \<open>get_jse_prices\<close> raises before any request.
\<close>

theorem validator_gates_fetches:
  "(is_jse_ticker t \<longleftrightarrow>
      3 \<le> length t \<and> length t \<le> 4 \<and> isalpha t \<and> t \<in> set TOP_STOCKS)
   \<and> (t \<notin> set TOP_STOCKS \<longrightarrow>
        \<not> is_jse_ticker t \<and> \<not> validate_sa_ticker t
        \<and> (\<forall>(env :: 'r env) w st.
             t \<notin> set (map snd (invoked w)) \<longrightarrow>
             t \<notin> set (map snd (invoked (snd (sa_market_analyst_agent env w st)))))
        \<and> (\<forall>(env :: 'r env) w start_date end_date.
             (\<exists>e. fst (get_jse_prices env w t start_date end_date) = Inl e)
             \<and> requests (snd (get_jse_prices env w t start_date end_date)) = requests w))"
proof (intro conjI impI allI)
  show "is_jse_ticker t \<longleftrightarrow>
      3 \<le> length t \<and> length t \<le> 4 \<and> isalpha t \<and> t \<in> set TOP_STOCKS"
    by (simp add: is_jse_ticker_def)
next
  assume "t \<notin> set TOP_STOCKS"
  then show "\<not> is_jse_ticker t"
    by (simp add: is_jse_ticker_def)
next
  assume "t \<notin> set TOP_STOCKS"
  then show "\<not> validate_sa_ticker t"
    by (simp add: validate_sa_ticker_def)
next
  fix env :: "'r env" and w :: world and st :: agent_state
  assume n: "t \<notin> set TOP_STOCKS" and i: "t \<notin> set (map snd (invoked w))"
  from n have "\<not> validate_sa_ticker t"
    by (simp add: validate_sa_ticker_def)
  with i analyst_agent_invoked [of env w st]
  show "t \<notin> set (map snd (invoked (snd (sa_market_analyst_agent env w st))))"
    by blast
next
  fix env :: "'r env" and w :: world and start_date end_date :: string
  assume "t \<notin> set TOP_STOCKS"
  then have "\<not> is_jse_ticker t"
    by (simp add: is_jse_ticker_def)
  from prices_rejects [OF this, of env w start_date end_date]
  show "\<exists>e. fst (get_jse_prices env w t start_date end_date) = Inl e"
    by simp
next
  fix env :: "'r env" and w :: world and start_date end_date :: string
  assume "t \<notin> set TOP_STOCKS"
  then have "\<not> is_jse_ticker t"
    by (simp add: is_jse_ticker_def)
  from prices_rejects [OF this, of env w start_date end_date]
  show "requests (snd (get_jse_prices env w t start_date end_date)) = requests w"
    by (simp add: enter_def)
qed

theorem validator_gates_fetches_witness:
  "''AAPL'' \<notin> set TOP_STOCKS
   \<and> ''AAPL'' \<notin> set (map snd (invoked empty_world))
   \<and> \<not> is_jse_ticker ''AAPL''
   \<and> ''AAPL'' \<notin> set (map snd (invoked (snd (sa_market_analyst_agent offline_env empty_world
                                   (example_state [''AAPL'', ''NPN''] empty_portfolio)))))
   \<and> requests (snd (get_jse_prices offline_env empty_world ''AAPL'' ''2024-01-01'' ''2024-03-01'')) = []"
proof -
  have a: "''AAPL'' \<notin> set TOP_STOCKS"
    by code_simp
  have b: "''AAPL'' \<notin> set (map snd (invoked empty_world))"
    by (simp add: empty_world_def)
  have c: "requests empty_world = []"
    by (simp add: empty_world_def)
  from validator_gates_fetches [of "''AAPL''", where ?'r = fields] a
  have d: "\<not> is_jse_ticker ''AAPL''"
    and e: "\<forall>(env :: fields env) w st.
             ''AAPL'' \<notin> set (map snd (invoked w)) \<longrightarrow>
             ''AAPL'' \<notin> set (map snd (invoked (snd (sa_market_analyst_agent env w st))))"
    and f: "\<forall>(env :: fields env) w start_date end_date.
             (\<exists>e. fst (get_jse_prices env w ''AAPL'' start_date end_date) = Inl e)
             \<and> requests (snd (get_jse_prices env w ''AAPL'' start_date end_date)) = requests w"
    by blast+
  from e b have "''AAPL'' \<notin> set (map snd (invoked (snd (sa_market_analyst_agent offline_env empty_world
                                   (example_state [''AAPL'', ''NPN''] empty_portfolio)))))"
    by blast
  moreover from f c
  have "requests (snd (get_jse_prices offline_env empty_world ''AAPL'' ''2024-01-01'' ''2024-03-01'')) = []"
    by simp
  ultimately show ?thesis using a b d
    by blast
qed

lemma offline_model:
  "state_get_model offline_env (example_state ts pf)
     = Inr (\<lambda>context. Inl (OtherException ''TimeoutError'' ''no reply''))"
  by (simp add: state_get_model_def offline_env_def example_state_def)

lemma offline_analyst_returns:
  "\<exists>st' w'. sa_market_analyst_agent offline_env empty_world
               (example_state [''NPN''] empty_portfolio) = (Inr st', w')"
proof -
  have "case sa_market_analyst_agent offline_env empty_world
               (example_state [''NPN''] empty_portfolio) of
          (Inr st', w') \<Rightarrow> True | (Inl e, w') \<Rightarrow> False"
    by code_simp
  then show ?thesis
    by (auto split: prod.splits sum.splits)
qed

text \<open>
  Claim C5. Once \<open>get_model\<close> has returned the model: when the market analyst agent
  returns, its results mapping has an entry for every valid ticker of the state, and a
  ticker on whose contexts the model call raises or the reply fails to parse has the signal
  HOLD with confidence 0.5; when the agent raises, the exception is one of
  \<open>get_sa_market_data\<close>, \<open>get_sa_company_facts\<close> or \<open>get_sa_news\<close>, which are called
  outside the \<^verbatim>\<open>try\<close>, so a failure of the model is never propagated.
\<close>

theorem llm_failure_defaults:
  assumes m: "state_get_model env st = Inr llm"
  shows "(\<forall>st' w'. sa_market_analyst_agent env w st = (Inr st', w') \<longrightarrow>
            (\<forall>t \<in> set (data_tickers st). validate_sa_ticker t \<longrightarrow>
               (\<exists>s. signal_of st' ''sa_market_analyst'' t = Some s
                  \<and> ((\<forall>context. context_ticker context = Some (JStr t)
                          \<longrightarrow> llm_fails env llm context)
                       \<longrightarrow> signal s = ''HOLD'' \<and> confidence s = 5 / 10))))
       \<and> (\<forall>e w'. sa_market_analyst_agent env w st = (Inl e, w') \<longrightarrow>
            (\<exists>w0. fst (get_sa_market_data env w0 None) = Inl e)
            \<or> (\<exists>w0 t. t \<in> set (data_tickers st) \<and> validate_sa_ticker t
                  \<and> (fst (get_sa_company_facts env w0 t) = Inl e
                       \<or> fst (get_sa_news env w0 t (data_end_date st) None) = Inl e)))"
proof -
  from analyst_agent_cases [OF m, of w] obtain w3 mc where
    r: "sa_market_analyst_agent env w st =
           (case get_sa_market_data env w3 None of
              (Inl e, w4) \<Rightarrow> (Inl e, w4)
            | (Inr market_data, w4) \<Rightarrow>
                (case analyst_loop env llm mc (data_end_date st) (data_tickers st) [] w4 of
                   (Inl e, w5) \<Rightarrow> (Inl e, w5)
                 | (Inr ticker_analyses, w5) \<Rightarrow>
                     (Inr (record_signals st ''sa_market_analyst'' ticker_analyses), w5)))"
    by blast
  obtain r1 w4 where md: "get_sa_market_data env w3 None = (r1, w4)"
    by (cases "get_sa_market_data env w3 None")
  show ?thesis
  proof (cases r1)
    case (Inl e1)
    then have "sa_market_analyst_agent env w st = (Inl e1, w4)"
      using r md by simp
    moreover have "fst (get_sa_market_data env w3 None) = Inl e1"
      using md Inl by simp
    ultimately show ?thesis by auto
  next
    case market: (Inr market_data)
    obtain r2 w5 where lp: "analyst_loop env llm mc (data_end_date st) (data_tickers st) [] w4 = (r2, w5)"
      by (cases "analyst_loop env llm mc (data_end_date st) (data_tickers st) [] w4")
    show ?thesis
    proof (cases r2)
      case (Inl e2)
      then have res: "sa_market_analyst_agent env w st = (Inl e2, w5)"
        using r md market lp by simp
      have "fst (analyst_loop env llm mc (data_end_date st) (data_tickers st) [] w4) = Inl e2"
        using lp Inl by simp
      from analyst_loop_error [OF this] res show ?thesis by auto
    next
      case (Inr sigs)
      then have res: "sa_market_analyst_agent env w st
                        = (Inr (record_signals st ''sa_market_analyst'' sigs), w5)"
        using r md market lp by simp
      have l: "fst (analyst_loop env llm mc (data_end_date st) (data_tickers st) [] w4) = Inr sigs"
        using lp Inr by simp
      have "\<forall>t \<in> set (data_tickers st). validate_sa_ticker t \<longrightarrow>
               (\<exists>s. signal_of (record_signals st ''sa_market_analyst'' sigs) ''sa_market_analyst'' t = Some s
                  \<and> ((\<forall>context. context_ticker context = Some (JStr t)
                          \<longrightarrow> llm_fails env llm context)
                       \<longrightarrow> signal s = ''HOLD'' \<and> confidence s = 5 / 10))"
      proof (intro ballI impI)
        fix t
        assume t: "t \<in> set (data_tickers st)" and v: "validate_sa_ticker t"
        from analyst_loop_entries [OF l, of t] t v obtain s where s: "map_of sigs t = Some s"
          by auto
        have "(\<forall>context. context_ticker context = Some (JStr t) \<longrightarrow> llm_fails env llm context)
                \<longrightarrow> signal s = ''HOLD'' \<and> confidence s = 5 / 10"
        proof
          assume f: "\<forall>context. context_ticker context = Some (JStr t) \<longrightarrow> llm_fails env llm context"
          have "\<forall>s. map_of [] t = Some s \<longrightarrow> signal s = ''HOLD'' \<and> confidence s = 5 / 10"
            by simp
          from analyst_loop_default [OF l f this s]
          show "signal s = ''HOLD'' \<and> confidence s = 5 / 10" .
        qed
        with s show "\<exists>s. signal_of (record_signals st ''sa_market_analyst'' sigs) ''sa_market_analyst'' t = Some s
                  \<and> ((\<forall>context. context_ticker context = Some (JStr t)
                          \<longrightarrow> llm_fails env llm context)
                       \<longrightarrow> signal s = ''HOLD'' \<and> confidence s = 5 / 10)"
          by (simp add: signal_of_record_signals)
      qed
      with res show ?thesis by simp
    qed
  qed
qed

theorem llm_failure_defaults_witness:
  "state_get_model offline_env (example_state [''NPN''] empty_portfolio)
     = Inr (\<lambda>context. Inl (OtherException ''TimeoutError'' ''no reply''))
   \<and> ''NPN'' \<in> set (data_tickers (example_state [''NPN''] empty_portfolio))
   \<and> validate_sa_ticker ''NPN''
   \<and> (\<forall>context. llm_fails offline_env (\<lambda>context. Inl (OtherException ''TimeoutError'' ''no reply'')) context)
   \<and> (\<exists>st' w' s. sa_market_analyst_agent offline_env empty_world
                    (example_state [''NPN''] empty_portfolio) = (Inr st', w')
          \<and> signal_of st' ''sa_market_analyst'' ''NPN'' = Some s
          \<and> signal s = ''HOLD'' \<and> confidence s = 5 / 10)"
proof -
  let ?llm = "\<lambda>context :: json. (Inl (OtherException ''TimeoutError'' ''no reply'') :: error + string)"
  let ?st = "example_state [''NPN''] empty_portfolio"
  have a: "state_get_model offline_env ?st = Inr ?llm"
    by (rule offline_model)
  have b: "''NPN'' \<in> set (data_tickers ?st)"
    by (simp add: example_state_def)
  have c: "validate_sa_ticker ''NPN''"
    by code_simp
  have d: "\<forall>context. llm_fails offline_env ?llm context"
    by (simp add: llm_fails_def)
  obtain st' w' where r: "sa_market_analyst_agent offline_env empty_world ?st = (Inr st', w')"
    using offline_analyst_returns by blast
  from llm_failure_defaults [OF a, of empty_world] r b c d
  have "\<exists>s. signal_of st' ''sa_market_analyst'' ''NPN'' = Some s
          \<and> signal s = ''HOLD'' \<and> confidence s = 5 / 10"
    by blast
  with r have "\<exists>st' w' s. sa_market_analyst_agent offline_env empty_world ?st = (Inr st', w')
          \<and> signal_of st' ''sa_market_analyst'' ''NPN'' = Some s
          \<and> signal s = ''HOLD'' \<and> confidence s = 5 / 10"
    by blast
  with a b c d show ?thesis
    by blast
qed

subsection \<open>Price fetch and cache\<close>

lemma try_formats_fst:
  "fst (try_formats env h s e fs w) =
     (case List.map_filter (format_answer env) (map (\<lambda>f. prices_url f s e) fs) of
        [] \<Rightarrow> Fallthrough
      | d # ds \<Rightarrow> Return (Inr (Raw d)))"
proof (induction fs arbitrary: w)
  case Nil
  show ?case by (simp add: List.map_filter_simps)
next
  case (Cons f fs)
  show ?case
    by (simp add: Cons.IH Let_def format_answer_def List.map_filter_simps
        split: http_outcome.splits sum.splits)
qed

lemma try_formats_requests:
  "requests (snd (try_formats env h s e fs w)) =
     requests w @ map (\<lambda>u. RequestsGet u h)
       (take (Suc (length (takeWhile (\<lambda>u. format_answer env u = None)
                             (map (\<lambda>f. prices_url f s e) fs))))
          (map (\<lambda>f. prices_url f s e) fs))"
proof (induction fs arbitrary: w)
  case Nil
  show ?case by simp
next
  case (Cons f fs)
  show ?case
    by (simp add: Cons.IH Let_def format_answer_def
        split: http_outcome.splits sum.splits)
qed

lemma try_formats_cache:
  "prices_cache (snd (try_formats env h s e fs w)) = prices_cache w
   \<and> printed (snd (try_formats env h s e fs w)) = printed w"
proof (induction fs arbitrary: w)
  case Nil
  show ?case by simp
next
  case (Cons f fs)
  show ?case
    by (simp add: Cons.IH Let_def split: http_outcome.splits sum.splits)
qed

lemma no_session_get: "session_requests (map (\<lambda>u. RequestsGet u h) us) = []"
  by (induction us) (simp_all add: session_requests_def)

lemma try_formats_keeps:
  "prices_cache (snd (try_formats env h s e fs w)) = prices_cache w
   \<and> printed (snd (try_formats env h s e fs w)) = printed w
   \<and> session_requests (requests (snd (try_formats env h s e fs w))) = session_requests (requests w)"
proof -
  have "session_requests (requests (snd (try_formats env h s e fs w))) = session_requests (requests w)"
    unfolding try_formats_requests
    using no_session_get [of h] by (simp add: session_requests_def)
  with try_formats_cache [of env h s e fs w] show ?thesis
    by simp
qed

lemma return_ends:
  "then_last (then_stmt fw (\<lambda>w'. (Return a, w'))) k =
     (case fw of (Return b, w') \<Rightarrow> (b, w') | (Fallthrough, w') \<Rightarrow> (a, w'))"
  by (simp add: then_last_def then_stmt_def split: prod.splits flow.splits)

lemma prices_on_miss:
  assumes "is_jse_ticker t"
    and "cached_data (prices_cache w) (''JSE_'' @ t @ ''_'' @ s @ ''_'' @ e) = None"
  shows "get_jse_prices env w t s e =
     (case try_formats env (auth_headers env) s e (ticker_formats t) (enter ''get_jse_prices'' t w) of
        (Return b, w') \<Rightarrow> (b, w')
      | (Fallthrough, w') \<Rightarrow> (Inr (Raw (JObj [(''prices'', JArr [])])), w'))"
  using assms by (simp add: get_jse_prices_def Let_def enter_def return_ends)

lemma prices_keeps:
  "prices_cache (snd (get_jse_prices env w t s e)) = prices_cache w
   \<and> printed (snd (get_jse_prices env w t s e)) = printed w
   \<and> session_requests (requests (snd (get_jse_prices env w t s e))) = session_requests (requests w)"
proof -
  let ?w = "enter ''get_jse_prices'' t w"
  let ?tf = "try_formats env (auth_headers env) s e (ticker_formats t) ?w"
  have k: "prices_cache (snd ?tf) = prices_cache w \<and> printed (snd ?tf) = printed w
      \<and> session_requests (requests (snd ?tf)) = session_requests (requests w)"
    using try_formats_keeps [of env "auth_headers env" s e "ticker_formats t" ?w]
    by (simp add: enter_def)
  obtain r w' where tf: "?tf = (r, w')"
    by (cases ?tf)
  show ?thesis
  proof (cases "is_jse_ticker t")
    case False
    then show ?thesis by (simp add: get_jse_prices_def enter_def)
  next
    case True
    show ?thesis
    proof (cases "cached_data (prices_cache w) (''JSE_'' @ t @ ''_'' @ s @ ''_'' @ e)")
      case (Some cached)
      then show ?thesis using True
        by (simp add: get_jse_prices_def enter_def Let_def split: sum.splits)
    next
      case None
      from prices_on_miss [OF True None, of env] tf k show ?thesis
        by (cases r) simp_all
    qed
  qed
qed


text \<open>
  Claim C6, as the spec states it, fails when a response has status 200 and a body that
  does not parse: the request for the plain ticker is answered with status 200, and the
  loop still goes on to the format with the JSE prefix.
\<close>

theorem status_200_not_final:
  "http_get unparseable_first_env (prices_url ''NPN'' ''2024-01-01'' ''2024-03-01'')
     = Returned \<lparr>status_code = 200, reason = ''OK'',
                  json_body = Inl ''Expecting value: line 1 column 1 (char 0)''\<rparr>
   \<and> requests (snd (get_jse_prices unparseable_first_env empty_world
                       ''NPN'' ''2024-01-01'' ''2024-03-01''))
     = [RequestsGet (prices_url ''NPN'' ''2024-01-01'' ''2024-03-01'') [],
        RequestsGet (prices_url ''JSE:NPN'' ''2024-01-01'' ''2024-03-01'') []]"
proof
  show "http_get unparseable_first_env (prices_url ''NPN'' ''2024-01-01'' ''2024-03-01'')
     = Returned \<lparr>status_code = 200, reason = ''OK'',
                  json_body = Inl ''Expecting value: line 1 column 1 (char 0)''\<rparr>"
    by (simp add: unparseable_first_env_def ok_response_def)
next
  show "requests (snd (get_jse_prices unparseable_first_env empty_world
                       ''NPN'' ''2024-01-01'' ''2024-03-01''))
     = [RequestsGet (prices_url ''NPN'' ''2024-01-01'' ''2024-03-01'') [],
        RequestsGet (prices_url ''JSE:NPN'' ''2024-01-01'' ''2024-03-01'') []]"
    by code_simp
qed

text \<open>
  Claim C6, amended. No execution of \<open>get_jse_prices\<close> runs the block after the
  unconditional return: no call goes through the session, the price cache is not written
  and nothing is printed. On a cache miss for a valid ticker the requests are those for
  the formats ticker, JSE:ticker, ticker.JSE, ticker.JO in this order, each at most once,
  up to and including the first whose response has status 200 and a body that parses as
  JSON; that body is returned, and \<^verbatim>\<open>{"prices": []}\<close> when no format gives one.
\<close>

theorem first_parseable_format_wins:
  "prices_cache (snd (get_jse_prices env w t s e)) = prices_cache w
   \<and> printed (snd (get_jse_prices env w t s e)) = printed w
   \<and> session_requests (requests (snd (get_jse_prices env w t s e))) = session_requests (requests w)
   \<and> (is_jse_ticker t \<longrightarrow>
        cached_data (prices_cache w) (''JSE_'' @ t @ ''_'' @ s @ ''_'' @ e) = None \<longrightarrow>
        requests (snd (get_jse_prices env w t s e)) =
          requests w @ map (\<lambda>u. RequestsGet u (auth_headers env))
            (take (Suc (length (takeWhile (\<lambda>u. format_answer env u = None)
                 (map (\<lambda>f. prices_url f s e) [t, ''JSE:'' @ t, t @ ''.JSE'', t @ ''.JO'']))))
               (map (\<lambda>f. prices_url f s e) [t, ''JSE:'' @ t, t @ ''.JSE'', t @ ''.JO'']))
        \<and> fst (get_jse_prices env w t s e) =
            Inr (Raw (case List.map_filter (format_answer env)
                        (map (\<lambda>f. prices_url f s e) [t, ''JSE:'' @ t, t @ ''.JSE'', t @ ''.JO'']) of
                   [] \<Rightarrow> JObj [(''prices'', JArr [])]
                 | d # ds \<Rightarrow> d)))"
proof -
  have miss: "requests (snd (get_jse_prices env w t s e)) =
          requests w @ map (\<lambda>u. RequestsGet u (auth_headers env))
            (take (Suc (length (takeWhile (\<lambda>u. format_answer env u = None)
                 (map (\<lambda>f. prices_url f s e) [t, ''JSE:'' @ t, t @ ''.JSE'', t @ ''.JO'']))))
               (map (\<lambda>f. prices_url f s e) [t, ''JSE:'' @ t, t @ ''.JSE'', t @ ''.JO'']))
        \<and> fst (get_jse_prices env w t s e) =
            Inr (Raw (case List.map_filter (format_answer env)
                        (map (\<lambda>f. prices_url f s e) [t, ''JSE:'' @ t, t @ ''.JSE'', t @ ''.JO'']) of
                   [] \<Rightarrow> JObj [(''prices'', JArr [])]
                 | d # ds \<Rightarrow> d))"
    if v: "is_jse_ticker t"
      and m: "cached_data (prices_cache w) (''JSE_'' @ t @ ''_'' @ s @ ''_'' @ e) = None"
  proof -
    let ?w = "enter ''get_jse_prices'' t w"
    let ?tf = "try_formats env (auth_headers env) s e (ticker_formats t) ?w"
    obtain r w' where tf: "?tf = (r, w')"
      by (cases ?tf)
    have fs: "ticker_formats t = [t, ''JSE:'' @ t, t @ ''.JSE'', t @ ''.JO'']"
      by (simp add: ticker_formats_def)
    have rq: "requests w' = requests w @ map (\<lambda>u. RequestsGet u (auth_headers env))
            (take (Suc (length (takeWhile (\<lambda>u. format_answer env u = None)
                 (map (\<lambda>f. prices_url f s e) [t, ''JSE:'' @ t, t @ ''.JSE'', t @ ''.JO'']))))
               (map (\<lambda>f. prices_url f s e) [t, ''JSE:'' @ t, t @ ''.JSE'', t @ ''.JO'']))"
      using try_formats_requests [of env "auth_headers env" s e "ticker_formats t" ?w] tf
      unfolding fs by (simp add: enter_def)
    have rs: "r = (case List.map_filter (format_answer env)
                        (map (\<lambda>f. prices_url f s e) [t, ''JSE:'' @ t, t @ ''.JSE'', t @ ''.JO'']) of
                   [] \<Rightarrow> Fallthrough
                 | d # ds \<Rightarrow> Return (Inr (Raw d)))"
      using try_formats_fst [of env "auth_headers env" s e "ticker_formats t" ?w] tf
      unfolding fs by simp
    have g: "get_jse_prices env w t s e =
        (case r of Return b \<Rightarrow> (b, w')
         | Fallthrough \<Rightarrow> (Inr (Raw (JObj [(''prices'', JArr [])])), w'))"
      using prices_on_miss [OF v m, of env] tf by simp
    show ?thesis
      unfolding g using rq rs by (simp split: list.splits)
  qed
  with prices_keeps [of env w t s e] show ?thesis
    by blast
qed

lemma unparseable_first_answers:
  "format_answer unparseable_first_env (prices_url ''NPN'' ''2024-01-01'' ''2024-03-01'') = None"
  "format_answer unparseable_first_env (prices_url ''JSE:NPN'' ''2024-01-01'' ''2024-03-01'')
     = Some example_body"
  by code_simp+

theorem first_parseable_format_wins_witness:
  "is_jse_ticker ''NPN''
   \<and> cached_data (prices_cache empty_world) (''JSE_'' @ ''NPN'' @ ''_'' @ ''2024-01-01'' @ ''_'' @ ''2024-03-01'') = None
   \<and> requests (snd (get_jse_prices unparseable_first_env empty_world
                       ''NPN'' ''2024-01-01'' ''2024-03-01''))
       = [RequestsGet (prices_url ''NPN'' ''2024-01-01'' ''2024-03-01'') [],
          RequestsGet (prices_url ''JSE:NPN'' ''2024-01-01'' ''2024-03-01'') []]
   \<and> fst (get_jse_prices unparseable_first_env empty_world ''NPN'' ''2024-01-01'' ''2024-03-01'')
       = Inr (Raw example_body)"
proof -
  have a: "is_jse_ticker ''NPN''"
    by code_simp
  have b: "cached_data (prices_cache empty_world)
             (''JSE_'' @ ''NPN'' @ ''_'' @ ''2024-01-01'' @ ''_'' @ ''2024-03-01'') = None"
    by (simp add: empty_world_def cached_data_def cache_get_def)
  have h: "auth_headers unparseable_first_env = []" "requests empty_world = []"
    by (simp_all add: auth_headers_def unparseable_first_env_def offline_env_def empty_world_def)
  from first_parseable_format_wins [of unparseable_first_env empty_world "''NPN''"
      "''2024-01-01''" "''2024-03-01''"] a b
  have "requests (snd (get_jse_prices unparseable_first_env empty_world
                       ''NPN'' ''2024-01-01'' ''2024-03-01''))
       = [RequestsGet (prices_url ''NPN'' ''2024-01-01'' ''2024-03-01'') [],
          RequestsGet (prices_url ''JSE:NPN'' ''2024-01-01'' ''2024-03-01'') []]
   \<and> fst (get_jse_prices unparseable_first_env empty_world ''NPN'' ''2024-01-01'' ''2024-03-01'')
       = Inr (Raw example_body)"
    by (simp add: unparseable_first_answers h List.map_filter_simps)
  with a b show ?thesis
    by blast
qed


text \<open>
  Claim C1 fails on the code: with a successful response \<open>get_jse_prices\<close> returns the
  parsed body as it came, neither typed nor annotated, and leaves the cache as it was; with
  the network down it returns the dictionary \<^verbatim>\<open>{"prices": []}\<close> and prints nothing. The
  behaviour the claim describes is that of the block after the unconditional return.
\<close>

theorem prices_returned_raw:
  "fst (get_jse_prices answering_env empty_world ''NPN'' ''2024-01-01'' ''2024-03-01'')
     = Inr (Raw example_body)
   \<and> prices_cache (snd (get_jse_prices answering_env empty_world ''NPN'' ''2024-01-01'' ''2024-03-01''))
     = []
   \<and> fst (get_jse_prices offline_env empty_world ''NPN'' ''2024-01-01'' ''2024-03-01'')
     = Inr (Raw (JObj [(''prices'', JArr [])]))
   \<and> printed (snd (get_jse_prices offline_env empty_world ''NPN'' ''2024-01-01'' ''2024-03-01''))
     = []
   \<and> fst (prices_after_return answering_env [] ''NPN''
             (prices_url ''NPN.JO'' ''2024-01-01'' ''2024-03-01'') ''JSE_NPN_2024-01-01_2024-03-01''
             empty_world)
     = Inr (Typed [[(''close'', JFloat 100), (''currency'', JStr ''ZAR'')]])"
proof (intro conjI)
  show "fst (get_jse_prices answering_env empty_world ''NPN'' ''2024-01-01'' ''2024-03-01'')
     = Inr (Raw example_body)"
    by code_simp
  show "prices_cache (snd (get_jse_prices answering_env empty_world ''NPN'' ''2024-01-01'' ''2024-03-01''))
     = []"
    by code_simp
  show "fst (get_jse_prices offline_env empty_world ''NPN'' ''2024-01-01'' ''2024-03-01'')
     = Inr (Raw (JObj [(''prices'', JArr [])]))"
    by code_simp
  show "printed (snd (get_jse_prices offline_env empty_world ''NPN'' ''2024-01-01'' ''2024-03-01''))
     = []"
    by code_simp
  show "fst (prices_after_return answering_env [] ''NPN''
             (prices_url ''NPN.JO'' ''2024-01-01'' ''2024-03-01'') ''JSE_NPN_2024-01-01_2024-03-01''
             empty_world)
     = Inr (Typed [[(''close'', JFloat 100), (''currency'', JStr ''ZAR'')]])"
    by code_simp
qed


















end
